theory Spec2Isabelle
  imports Complex_Main
begin

text \<open>
  The connectivity bridge of \<^verbatim>\<open>neon_phal_network_manager\<close>: a caller asks for the
  connectivity state with \<^verbatim>\<open>get_state\<close>, a worker thread owns the D-Bus connection and
  answers through one shared slot and two events. The worker is a transition function over
  its program points, driven by the events of its surroundings; \<^verbatim>\<open>get_state\<close> is a
  function of the object, of its timeout and of what the worker does, and when, between
  the caller's statements. It returns a state or raises.
\<close>

section \<open>Connectivity states\<close>

text \<open>
  \<^verbatim>\<open>class ConnectivityState(IntEnum)\<close>: five members with the integer values 0 to 4.
\<close>

datatype ConnectivityState = UNKNOWN | NONE | PORTAL | LIMITED | FULL

fun int_value :: "ConnectivityState \<Rightarrow> int" where
  "int_value UNKNOWN = 0"
| "int_value NONE = 1"
| "int_value PORTAL = 2"
| "int_value LIMITED = 3"
| "int_value FULL = 4"

definition members :: "ConnectivityState list" where
  "members = [UNKNOWN, NONE, PORTAL, LIMITED, FULL]"

text \<open>
  The fields of a D-Bus message body as Python values: integers, booleans, doubles,
  strings and arrays (dictionaries and variants behave as arrays do here). A finite double
  is the real number it denotes. A Python \<^verbatim>\<open>bool\<close> is an \<^verbatim>\<open>int\<close> subclass, so \<^verbatim>\<open>True\<close>
  compares (and hashes) equal to 1 and \<^verbatim>\<open>False\<close> to 0; a double compares equal to the
  integer of the same value.
\<close>

datatype dbus_value =
  DInt int | DBool bool | DDouble real | DStr string | DArray "dbus_value list"

datatype py_error = ValueError | IndexError | OverflowError

text \<open>
  \<^verbatim>\<open>ConnectivityState(v)\<close>: the enum's lookup by value. It returns the member whose value
  equals \<^verbatim>\<open>v\<close> and raises \<^verbatim>\<open>ValueError\<close> when there is none.
\<close>

definition by_value :: "int \<Rightarrow> py_error + ConnectivityState" where
  "by_value i = (case find (\<lambda>m. int_value m = i) members of
                   None \<Rightarrow> Inl ValueError
                 | Some m \<Rightarrow> Inr m)"

definition by_double :: "real \<Rightarrow> py_error + ConnectivityState" where
  "by_double x = (case find (\<lambda>m. real_of_int (int_value m) = x) members of
                    None \<Rightarrow> Inl ValueError
                  | Some m \<Rightarrow> Inr m)"

fun ConnectivityState_call :: "dbus_value \<Rightarrow> py_error + ConnectivityState" where
  "ConnectivityState_call (DInt i) = by_value i"
| "ConnectivityState_call (DBool b) = by_value (if b then 1 else 0)"
| "ConnectivityState_call (DDouble x) = by_double x"
| "ConnectivityState_call (DStr s) = Inl ValueError"
| "ConnectivityState_call (DArray vs) = Inl ValueError"

section \<open>Bus messages\<close>

text \<open>
  The message the worker passes to \<^verbatim>\<open>bus.call\<close> is built from four keyword arguments.
  Of a reply, the worker reads \<^verbatim>\<open>message_type\<close> and \<^verbatim>\<open>body\<close> only.
\<close>

record DbusMessage =
  destination :: string
  path :: string
  interface :: string
  member :: string

datatype DbusMessageType = METHOD_CALL | METHOD_RETURN | ERROR | SIGNAL

record DbusReply =
  message_type :: DbusMessageType
  body :: "dbus_value list"

definition CheckConnectivity :: DbusMessage where
  "CheckConnectivity =
     \<lparr>destination = ''org.freedesktop.NetworkManager'',
      path = ''/org/freedesktop/NetworkManager'',
      interface = ''org.freedesktop.NetworkManager'',
      member = ''CheckConnectivity''\<rparr>"

text \<open>
  \<^verbatim>\<open>ConnectivityState(reply.body[0])\<close>: indexing an empty body raises \<^verbatim>\<open>IndexError\<close>.
\<close>

fun decode :: "dbus_value list \<Rightarrow> py_error + ConnectivityState" where
  "decode [] = Inl IndexError"
| "decode (v # vs) = ConnectivityState_call v"

section \<open>The bridge and its worker thread\<close>

text \<open>
  The worker thread runs the coroutine \<^verbatim>\<open>_dbus_thread_proc_async\<close>. Its program points,
  named after what the statement there does (source lines in brackets):
  \<^item> \<open>Starting\<close> [113]: the thread has been started and tests \<^verbatim>\<open>self._bus is None\<close>;
  \<^item> \<open>Connecting\<close> [115-122]: building its own bus object and awaiting \<^verbatim>\<open>bus.connect()\<close>;
  \<^item> \<open>Waiting\<close> [129]: blocked in \<^verbatim>\<open>self._state_requested.wait()\<close>;
  \<^item> \<open>Resetting\<close> [130]: about to store \<^verbatim>\<open>UNKNOWN\<close>;
  \<^item> \<open>Calling\<close> [132]: about to build the message and hand it to \<^verbatim>\<open>bus.call\<close>;
  \<^item> \<open>Awaiting\<close> [132]: awaiting the result of \<^verbatim>\<open>bus.call\<close>;
  \<^item> \<open>Decoding r\<close> [140-141]: holding the reply \<open>r\<close>;
  \<^item> \<open>Clearing\<close> [144], \<open>Signalling\<close> [145]: the two event updates that end an iteration;
  \<^item> \<open>Excepting\<close> [146-147]: in the \<^verbatim>\<open>except Exception\<close> handler;
  \<^item> \<open>Exiting\<close> [150]: about to clear the thread handle.
\<close>

datatype worker_pc =
    Starting | Connecting | Waiting | Resetting | Calling | Awaiting
  | Decoding DbusReply | Clearing | Signalling | Excepting | Exiting

datatype bus_target = SYSTEM | Address string

text \<open>
  The attributes of \<^verbatim>\<open>NetworkManager\<close>. \<open>bus\<close> is the handle injected at construction, if
  any. \<open>dbus_thread\<close> is the thread handle together with the program point of that
  thread; \<open>None\<close> is Python's \<^verbatim>\<open>None\<close>. The remaining fields record what the object does
  to its surroundings: the messages handed to \<^verbatim>\<open>bus.call\<close>, the replies it returned, the
  buses the worker built and connected itself, the lines written by \<^verbatim>\<open>LOG.exception\<close>, the
  number of times the wait for a request returned, and the number of threads started.
\<close>

record NetworkManager =
  bus :: "nat option"
  dbus_address :: "string option"
  state :: ConnectivityState
  state_requested :: bool
  state_ready :: bool
  dbus_thread :: "worker_pc option"
  sent :: "DbusMessage list"
  received :: "DbusReply list"
  connections :: "bus_target list"
  logged :: "string list"
  handled :: nat
  threads_started :: nat

definition DEFAULT_TIMEOUT :: real where
  "DEFAULT_TIMEOUT = 1.0"

definition NetworkManager_init :: "string option \<Rightarrow> nat option \<Rightarrow> NetworkManager" where
  "NetworkManager_init address b =
     \<lparr>bus = b, dbus_address = address, state = UNKNOWN,
      state_requested = False, state_ready = False, dbus_thread = None,
      sent = [], received = [], connections = [], logged = [],
      handled = 0, threads_started = 0\<rparr>"

text \<open>
  What happens to the worker next is chosen by its surroundings: \<open>Step\<close> lets it execute
  the statement at its program point when that statement neither awaits the bus nor is
  blocked; \<open>Bus_connected\<close>, \<open>Bus_raises\<close> and \<open>Bus_reply r\<close> are the three ways an
  awaited bus operation can end. \<open>Bus_raises\<close> stands for any exception of class
  \<^verbatim>\<open>Exception\<close> raised while the bus object is built, by \<^verbatim>\<open>bus.connect()\<close> or by
  \<^verbatim>\<open>bus.call\<close>. A bus operation that never ends is a schedule in which no such event
  follows. An event that does not apply at the current program point leaves everything
  as it is; so does \<open>Step\<close> for a worker blocked in its wait.
\<close>

datatype event = Step | Bus_connected | Bus_raises | Bus_reply DbusReply

definition goto :: "worker_pc \<Rightarrow> NetworkManager \<Rightarrow> NetworkManager" where
  "goto pc s = s\<lparr>dbus_thread := Some pc\<rparr>"

text \<open>\<^verbatim>\<open>if self._dbus_address:\<close> is false for \<^verbatim>\<open>None\<close> and for the empty string.\<close>

definition target :: "NetworkManager \<Rightarrow> bus_target" where
  "target s = (case dbus_address s of
                 None \<Rightarrow> SYSTEM
               | Some a \<Rightarrow> if a = [] then SYSTEM else Address a)"

fun dbus_thread_proc_async :: "worker_pc \<Rightarrow> event \<Rightarrow> NetworkManager \<Rightarrow> NetworkManager" where
  "dbus_thread_proc_async Starting Step s =
     (if bus s = None then goto Connecting s else goto Waiting s)"
| "dbus_thread_proc_async Connecting Bus_connected s =
     goto Waiting (s\<lparr>connections := connections s @ [target s]\<rparr>)"
| "dbus_thread_proc_async Connecting Bus_raises s = goto Excepting s"
| "dbus_thread_proc_async Waiting Step s =
     (if state_requested s then goto Resetting (s\<lparr>handled := handled s + 1\<rparr>) else s)"
| "dbus_thread_proc_async Resetting Step s = goto Calling (s\<lparr>state := UNKNOWN\<rparr>)"
| "dbus_thread_proc_async Calling Step s =
     goto Awaiting (s\<lparr>sent := sent s @ [CheckConnectivity]\<rparr>)"
| "dbus_thread_proc_async Awaiting (Bus_reply r) s =
     goto (Decoding r) (s\<lparr>received := received s @ [r]\<rparr>)"
| "dbus_thread_proc_async Awaiting Bus_raises s = goto Excepting s"
| "dbus_thread_proc_async (Decoding r) Step s =
     (if message_type r \<noteq> ERROR
      then (case decode (body r) of
              Inl e \<Rightarrow> goto Excepting s
            | Inr v \<Rightarrow> goto Clearing (s\<lparr>state := v\<rparr>))
      else goto Clearing s)"
| "dbus_thread_proc_async Clearing Step s = goto Signalling (s\<lparr>state_requested := False\<rparr>)"
| "dbus_thread_proc_async Signalling Step s = goto Waiting (s\<lparr>state_ready := True\<rparr>)"
| "dbus_thread_proc_async Excepting Step s =
     goto Exiting (s\<lparr>logged := logged s @ [''error occurred while waiting for DBus reply'']\<rparr>)"
| "dbus_thread_proc_async Exiting Step s = s\<lparr>dbus_thread := None\<rparr>"
| "dbus_thread_proc_async _ _ s = s"

definition worker_step :: "event \<Rightarrow> NetworkManager \<Rightarrow> NetworkManager" where
  "worker_step e s = (case dbus_thread s of
                        None \<Rightarrow> s
                      | Some pc \<Rightarrow> dbus_thread_proc_async pc e s)"

fun run :: "event list \<Rightarrow> NetworkManager \<Rightarrow> NetworkManager" where
  "run [] s = s"
| "run (e # es) s = run es (worker_step e s)"

section \<open>The caller's side\<close>

text \<open>
  \<^verbatim>\<open>_ensure_thread_started\<close>: a thread is created and started only when the handle is
  \<^verbatim>\<open>None\<close>. One calling thread is represented, so the test and the start are not
  interleaved with another caller's. Starting the thread, clearing and setting an event
  do not raise.
\<close>

definition ensure_thread_started :: "NetworkManager \<Rightarrow> NetworkManager" where
  "ensure_thread_started s =
     (if dbus_thread s = None
      then s\<lparr>dbus_thread := Some Starting, threads_started := threads_started s + 1\<rparr>
      else s)"

definition clear_ready :: "NetworkManager \<Rightarrow> NetworkManager" where
  "clear_ready s = s\<lparr>state_ready := False\<rparr>"

definition set_requested :: "NetworkManager \<Rightarrow> NetworkManager" where
  "set_requested s = s\<lparr>state_requested := True\<rparr>"

text \<open>
  \<^verbatim>\<open>threading.TIMEOUT_MAX\<close>, the largest timeout the blocking primitives of \<^verbatim>\<open>threading\<close>
  accept: a larger one makes them raise \<^verbatim>\<open>OverflowError\<close>. The value is that of CPython on
  64-bit Linux.
\<close>

definition TIMEOUT_MAX :: real where
  "TIMEOUT_MAX = 9223372036"

text \<open>
  A caller blocked on the "result ready" event with \<open>remaining\<close> seconds to go, while the
  worker runs: each event of the worker comes with the time that passes before it (a
  negative time counts as none). The caller resumes as soon as the flag is set, or when
  the time is up; what the worker would have done later is not part of the wait. The
  result is the time spent and the object at that moment.
\<close>

fun blocked :: "real \<Rightarrow> (real \<times> event) list \<Rightarrow> NetworkManager \<Rightarrow> real \<times> NetworkManager" where
  "blocked remaining [] s = (if state_ready s then 0 else remaining, s)"
| "blocked remaining ((d, e) # es) s =
     (if state_ready s then (0, s)
      else if remaining \<le> max 0 d then (remaining, s)
      else (case blocked (remaining - max 0 d) es (worker_step e s) of
              (w, s') \<Rightarrow> (max 0 d + w, s')))"

text \<open>
  \<^verbatim>\<open>self._state_ready.wait(timeout=timeout)\<close>, as \<^verbatim>\<open>threading.Event.wait\<close> is written: it
  returns true at once when the flag is set; otherwise it waits on the condition, which
  raises \<^verbatim>\<open>OverflowError\<close> for a timeout above \<^verbatim>\<open>TIMEOUT_MAX\<close>, does not block for a timeout
  that is not positive, and else blocks until the flag is set or the timeout is over. The
  result is what the call returns or raises, the time it took and the object afterwards.
\<close>

definition Event_wait ::
    "real \<Rightarrow> (real \<times> event) list \<Rightarrow> NetworkManager \<Rightarrow>
     (py_error + bool) \<times> real \<times> NetworkManager" where
  "Event_wait timeout es s =
     (if state_ready s then (Inr True, 0, s)
      else if TIMEOUT_MAX < timeout then (Inl OverflowError, 0, s)
      else if timeout \<le> 0 then (Inr False, 0, s)
      else (case blocked timeout es s of (w, s') \<Rightarrow> (Inr (state_ready s'), w, s')))"

text \<open>
  While the caller executes \<^verbatim>\<open>get_state\<close> the worker runs too. A schedule lists what
  the worker does between the caller's statements: after the thread check and before
  \<^verbatim>\<open>_state_ready.clear()\<close>, before \<^verbatim>\<open>_state_requested.set()\<close>, before the wait begins,
  while the caller is blocked in the wait (with the times in between), and between the
  return of the wait and the read of \<^verbatim>\<open>self._state\<close>.
\<close>

record schedule =
  before_clear :: "event list"
  before_set :: "event list"
  before_wait :: "event list"
  during_wait :: "(real \<times> event) list"
  before_return :: "event list"

text \<open>The object when the wait of line 89 begins.\<close>

definition wait_entry :: "schedule \<Rightarrow> NetworkManager \<Rightarrow> NetworkManager" where
  "wait_entry env s =
     run (before_wait env)
       (set_requested
         (run (before_set env)
           (clear_ready
             (run (before_clear env) (ensure_thread_started s)))))"

text \<open>The wait of line 89: its outcome, the time it took and the object when it ends.\<close>

definition get_state_wait ::
    "real \<Rightarrow> schedule \<Rightarrow> NetworkManager \<Rightarrow> (py_error + bool) \<times> real \<times> NetworkManager" where
  "get_state_wait timeout env s = Event_wait timeout (during_wait env) (wait_entry env s)"

definition wait_exit :: "real \<Rightarrow> schedule \<Rightarrow> NetworkManager \<Rightarrow> NetworkManager" where
  "wait_exit timeout env s = snd (snd (get_state_wait timeout env s))"

definition wait_signalled :: "real \<Rightarrow> schedule \<Rightarrow> NetworkManager \<Rightarrow> bool" where
  "wait_signalled timeout env s \<longleftrightarrow> fst (get_state_wait timeout env s) = Inr True"


text \<open>
  \<^verbatim>\<open>get_state\<close>: what it returns or raises, and the object afterwards. An exception of the
  wait is not caught; the value the wait returns is discarded.
\<close>

definition get_state ::
    "real \<Rightarrow> schedule \<Rightarrow> NetworkManager \<Rightarrow> (py_error + ConnectivityState) \<times> NetworkManager" where
  "get_state timeout env s =
     (case get_state_wait timeout env s of
        (Inl e, w, s') \<Rightarrow> (Inl e, s')
      | (Inr signalled, w, s') \<Rightarrow>
          (let s'' = run (before_return env) s' in (Inr (state s''), s'')))"

definition is_network_connected ::
    "real \<Rightarrow> schedule \<Rightarrow> NetworkManager \<Rightarrow> (py_error + bool) \<times> NetworkManager" where
  "is_network_connected timeout env s =
     (case get_state timeout env s of
        (Inl e, s') \<Rightarrow> (Inl e, s')
      | (Inr st, s') \<Rightarrow> (Inr (st \<in> {PORTAL, LIMITED, FULL}), s'))"

definition is_internet_connected ::
    "real \<Rightarrow> schedule \<Rightarrow> NetworkManager \<Rightarrow> (py_error + bool) \<times> NetworkManager" where
  "is_internet_connected timeout env s =
     (case get_state timeout env s of
        (Inl e, s') \<Rightarrow> (Inl e, s')
      | (Inr st, s') \<Rightarrow> (Inr (st = FULL), s'))"

section \<open>The plugin\<close>

text \<open>
  A bus message is represented by its type; \<^verbatim>\<open>message.reply(t)\<close> builds the message of
  type \<^verbatim>\<open>t\<close>. What the plugin does to the messagebus and to the clock is recorded as a
  list of effects, in order. An exception raised by \<^verbatim>\<open>get_state\<close> leaves \<^verbatim>\<open>handle_check\<close>
  before anything is emitted.
\<close>

datatype Message = Message string

definition reply :: "Message \<Rightarrow> string \<Rightarrow> Message" where
  "reply m t = Message t"

datatype effect = On string | Emit Message | Sleep int

record NetworkManagerEvents =
  sleep_time :: int
  net_manager :: NetworkManager

definition NetworkManagerEvents_init :: "effect list \<times> NetworkManagerEvents" where
  "NetworkManagerEvents_init =
     ([On ''ovos.phal.internet_check'', Emit (Message ''ovos.phal.internet_check'')],
      \<lparr>sleep_time = 60, net_manager = NetworkManager_init None None\<rparr>)"

definition handle_check ::
    "Message \<Rightarrow> schedule \<Rightarrow> NetworkManagerEvents \<Rightarrow>
     (py_error + effect list) \<times> NetworkManagerEvents" where
  "handle_check message env p =
     (case get_state DEFAULT_TIMEOUT env (net_manager p) of
        (Inl e, nm) \<Rightarrow> (Inl e, p\<lparr>net_manager := nm\<rparr>)
      | (Inr st, nm) \<Rightarrow>
          (Inr ((if st = FULL
                 then [Emit (reply message ''ovos.phal.connectivity.internet.connected''),
                       Emit (reply message ''mycroft.internet.connected'')]
                 else if int_value st > int_value NONE
                 then [Emit (reply message ''ovos.phal.connectivity.network.connected'')]
                 else [Emit (reply message ''ovos.phal.connectivity.disconnected''),
                       Emit (reply message ''enclosure.notify.no_internet'')])
                @ [Sleep (sleep_time p), Emit message]),
           p\<lparr>net_manager := nm\<rparr>))"

section \<open>Reachable states\<close>

text \<open>
  The states the object can be in: after construction, after any statement of the caller
  and after any event of the worker.
\<close>

inductive reachable :: "NetworkManager \<Rightarrow> bool" where
  init: "reachable (NetworkManager_init address b)"
| worker: "reachable s \<Longrightarrow> reachable (worker_step e s)"
| ensure: "reachable s \<Longrightarrow> reachable (ensure_thread_started s)"
| clear: "reachable s \<Longrightarrow> reachable (clear_ready s)"
| request: "reachable s \<Longrightarrow> reachable (set_requested s)"

text \<open>
  No request is pending or being handled: the "request pending" flag is clear and the
  worker, if there is one, is not between taking a request and signalling its result.
\<close>

definition quiescent :: "NetworkManager \<Rightarrow> bool" where
  "quiescent s \<longleftrightarrow>
     \<not> state_requested s \<and>
     dbus_thread s \<in> {None, Some Starting, Some Connecting, Some Waiting,
                      Some Excepting, Some Exiting}"

text \<open>
  What the slot holds once the worker has dealt with a reply: the decoded state, or the
  \<open>UNKNOWN\<close> stored before the call when the reply is of error type. Decoding may raise.
\<close>

definition outcome :: "DbusReply \<Rightarrow> py_error + ConnectivityState" where
  "outcome r = (if message_type r \<noteq> ERROR then decode (body r) else Inr UNKNOWN)"

section \<open>Invariants\<close>

text \<open>
  The bookkeeping of one request, relative to the replies \<open>rs\<close> and the messages \<open>ms\<close>
  seen before it: \<open>untouched\<close> while nothing of it has happened on the bus and no
  result has been signalled, \<open>answered\<close> once exactly one message went out, exactly one
  reply came back, and the slot holds what that reply makes the worker store.
\<close>

definition answered :: "DbusReply list \<Rightarrow> DbusMessage list \<Rightarrow> NetworkManager \<Rightarrow> bool" where
  "answered rs ms s \<longleftrightarrow>
     received s \<noteq> [] \<and> butlast (received s) = rs \<and> sent s = ms @ [CheckConnectivity] \<and>
     outcome (last (received s)) = Inr (state s)"

definition untouched :: "DbusReply list \<Rightarrow> DbusMessage list \<Rightarrow> NetworkManager \<Rightarrow> bool" where
  "untouched rs ms s \<longleftrightarrow> \<not> state_ready s \<and> received s = rs \<and> sent s = ms"

text \<open>
  What holds at each program point of the worker from the moment the caller has raised
  "request pending" on a quiescent object until it reads the slot.
\<close>

fun handshake_at ::
    "worker_pc \<Rightarrow> DbusReply list \<Rightarrow> DbusMessage list \<Rightarrow> NetworkManager \<Rightarrow> bool" where
  "handshake_at Starting rs ms s = untouched rs ms s"
| "handshake_at Connecting rs ms s = untouched rs ms s"
| "handshake_at Waiting rs ms s =
     (untouched rs ms s \<or> (state_ready s \<and> \<not> state_requested s \<and> answered rs ms s))"
| "handshake_at Resetting rs ms s = (untouched rs ms s \<and> state_requested s)"
| "handshake_at Calling rs ms s = (untouched rs ms s \<and> state_requested s \<and> state s = UNKNOWN)"
| "handshake_at Awaiting rs ms s =
     (\<not> state_ready s \<and> state_requested s \<and> state s = UNKNOWN \<and>
      received s = rs \<and> sent s = ms @ [CheckConnectivity])"
| "handshake_at (Decoding r) rs ms s =
     (\<not> state_ready s \<and> state_requested s \<and> state s = UNKNOWN \<and>
      received s = rs @ [r] \<and> sent s = ms @ [CheckConnectivity])"
| "handshake_at Clearing rs ms s = (\<not> state_ready s \<and> state_requested s \<and> answered rs ms s)"
| "handshake_at Signalling rs ms s = (\<not> state_ready s \<and> \<not> state_requested s \<and> answered rs ms s)"
| "handshake_at Excepting rs ms s = (\<not> state_ready s)"
| "handshake_at Exiting rs ms s = (\<not> state_ready s)"

definition handshake :: "DbusReply list \<Rightarrow> DbusMessage list \<Rightarrow> NetworkManager \<Rightarrow> bool" where
  "handshake rs ms s =
     (case dbus_thread s of None \<Rightarrow> \<not> state_ready s | Some pc \<Rightarrow> handshake_at pc rs ms s)"

text \<open>
  A request has been taken (the wait of line 129 has returned) and its call has not been
  issued yet.
\<close>

definition in_request :: "NetworkManager \<Rightarrow> nat" where
  "in_request s = (if dbus_thread s \<in> {Some Resetting, Some Calling} then 1 else 0)"

definition calls_inv :: "NetworkManager \<Rightarrow> bool" where
  "calls_inv s \<longleftrightarrow>
     list_all (\<lambda>m. m = CheckConnectivity) (sent s) \<and>
     length (sent s) + in_request s = handled s"

text \<open>The reply \<open>r\<close> is not an error reply and decodes to \<open>v\<close>.\<close>

definition succeeded :: "DbusReply \<Rightarrow> ConnectivityState \<Rightarrow> bool" where
  "succeeded r v \<longleftrightarrow> message_type r \<noteq> ERROR \<and> decode (body r) = Inr v"

definition slot_inv :: "NetworkManager \<Rightarrow> bool" where
  "slot_inv s \<longleftrightarrow>
     (state s = UNKNOWN \<or> (\<exists>r \<in> set (received s). succeeded r (state s))) \<and>
     (case dbus_thread s of
        Some Calling \<Rightarrow> state s = UNKNOWN
      | Some Awaiting \<Rightarrow> state s = UNKNOWN
      | Some (Decoding r) \<Rightarrow> state s = UNKNOWN \<and> r \<in> set (received s)
      | _ \<Rightarrow> True)"

text \<open>
  A worker that has taken a request and not yet cleared "request pending" finds it set.
\<close>

definition request_inv :: "NetworkManager \<Rightarrow> bool" where
  "request_inv s \<longleftrightarrow>
     (case dbus_thread s of
        Some Resetting \<Rightarrow> state_requested s
      | Some Calling \<Rightarrow> state_requested s
      | Some Awaiting \<Rightarrow> state_requested s
      | Some (Decoding r) \<Rightarrow> state_requested s
      | Some Clearing \<Rightarrow> state_requested s
      | _ \<Rightarrow> True)"

text \<open>
  A bus handle was injected and the worker is not connecting a bus of its own.
\<close>

definition reuses_bus :: "NetworkManager \<Rightarrow> bool" where
  "reuses_bus s \<longleftrightarrow> bus s \<noteq> None \<and> dbus_thread s \<noteq> Some Connecting"

section \<open>Properties of the wait\<close>

lemma run_append: "run (es @ fs) s = run fs (run es s)"
  by (induction es arbitrary: s) simp_all

lemma blocked_run: "\<exists>es'. snd (blocked remaining es s) = run es' s"
proof (induction es arbitrary: remaining s)
  case Nil
  have "snd (blocked remaining [] s) = run [] s" by simp
  then show ?case by blast
next
  case (Cons x es)
  obtain d e where x: "x = (d, e)" by (cases x)
  show ?case
  proof (cases "state_ready s \<or> remaining \<le> max 0 d")
    case True
    then have "snd (blocked remaining (x # es) s) = run [] s"
      by (auto simp: x)
    then show ?thesis by blast
  next
    case False
    from Cons.IH [of "remaining - max 0 d" "worker_step e s"]
    obtain es' where "snd (blocked (remaining - max 0 d) es (worker_step e s)) =
        run es' (worker_step e s)"
      by blast
    with False have "snd (blocked remaining (x # es) s) = run (e # es') s"
      by (simp add: x split_beta)
    then show ?thesis by blast
  qed
qed


lemma Event_wait_run: "\<exists>es'. snd (snd (Event_wait timeout es s)) = run es' s"
proof (cases "state_ready s \<or> TIMEOUT_MAX < timeout \<or> timeout \<le> 0")
  case True
  then have "snd (snd (Event_wait timeout es s)) = run [] s"
    by (auto simp: Event_wait_def)
  then show ?thesis by blast
next
  case False
  then have "snd (snd (Event_wait timeout es s)) = snd (blocked timeout es s)"
    by (simp add: Event_wait_def split_beta)
  with blocked_run [of timeout es s] show ?thesis by simp
qed


lemma Event_wait_signalled:
  "fst (Event_wait timeout es s) = Inr True \<Longrightarrow> state_ready (snd (snd (Event_wait timeout es s)))"
  by (auto simp: Event_wait_def split_beta split: if_splits)

lemma Event_wait_accepts:
  "timeout \<le> TIMEOUT_MAX \<Longrightarrow> \<exists>b. fst (Event_wait timeout es s) = Inr b"
  by (auto simp: Event_wait_def split_beta)


lemma wait_exit_run: "\<exists>es. wait_exit timeout env s = run es (wait_entry env s)"
  unfolding wait_exit_def get_state_wait_def by (rule Event_wait_run)

lemma get_state_returns:
  assumes "fst (get_state_wait timeout env s) = Inr b"
  shows "get_state timeout env s =
           (Inr (state (run (before_return env) (wait_exit timeout env s))),
            run (before_return env) (wait_exit timeout env s))"
proof -
  obtain r w s' where g: "get_state_wait timeout env s = (r, w, s')"
    by (cases "get_state_wait timeout env s")
  with assms have "r = Inr b" by simp
  with g show ?thesis by (simp add: get_state_def wait_exit_def Let_def)
qed

lemma get_state_raises:
  assumes "fst (get_state_wait timeout env s) = Inl e"
  shows "get_state timeout env s = (Inl e, wait_exit timeout env s)"
proof -
  obtain r w s' where g: "get_state_wait timeout env s = (r, w, s')"
    by (cases "get_state_wait timeout env s")
  with assms have "r = Inl e" by simp
  with g show ?thesis by (simp add: get_state_def wait_exit_def)
qed

lemma get_state_run: "\<exists>es. snd (get_state timeout env s) = run es (wait_entry env s)"
proof -
  obtain es where es: "wait_exit timeout env s = run es (wait_entry env s)"
    using wait_exit_run by blast
  show ?thesis
  proof (cases "fst (get_state_wait timeout env s)")
    case (Inl e)
    then have "snd (get_state timeout env s) = run es (wait_entry env s)"
      by (simp add: get_state_raises es)
    then show ?thesis by blast
  next
    case (Inr b)
    then have "snd (get_state timeout env s) = run (es @ before_return env) (wait_entry env s)"
      by (simp add: get_state_returns es run_append)
    then show ?thesis by blast
  qed
qed

lemma get_state_accepts:
  assumes "timeout \<le> TIMEOUT_MAX"
  shows "fst (get_state timeout env s) = Inr (state (snd (get_state timeout env s)))"
proof -
  from assms obtain b where "fst (get_state_wait timeout env s) = Inr b"
    unfolding get_state_wait_def using Event_wait_accepts by blast
  then show ?thesis by (simp add: get_state_returns)
qed

lemma get_state_value:
  "fst (get_state timeout env s) = Inr v \<Longrightarrow> v = state (snd (get_state timeout env s))"
  by (cases "fst (get_state_wait timeout env s)")
    (simp_all add: get_state_returns get_state_raises)

section \<open>Properties of the handshake\<close>

lemma handshake_step: "handshake rs ms s \<Longrightarrow> handshake rs ms (worker_step e s)"
  apply (cases "dbus_thread s")
   apply (simp add: handshake_def worker_step_def)
  subgoal for pc
    apply (cases pc; cases e)
    apply (auto simp: handshake_def worker_step_def goto_def untouched_def answered_def outcome_def split: sum.splits)
    done
  done

lemma handshake_run: "handshake rs ms s \<Longrightarrow> handshake rs ms (run es s)"
  by (induction es arbitrary: s) (auto intro: handshake_step)

lemma quiescent_step:
  "quiescent s \<Longrightarrow> quiescent (worker_step e s) \<and> received (worker_step e s) = received s \<and>
     sent (worker_step e s) = sent s \<and> state_ready (worker_step e s) = state_ready s"
  apply (cases "dbus_thread s")
   apply (simp add: quiescent_def worker_step_def)
  subgoal for pc
    apply (cases pc; cases e)
    apply (auto simp: quiescent_def worker_step_def goto_def)
    done
  done

lemma quiescent_run:
  "quiescent s \<Longrightarrow> quiescent (run es s) \<and> received (run es s) = received s \<and>
     sent (run es s) = sent s \<and> state_ready (run es s) = state_ready s"
proof (induction es arbitrary: s)
  case Nil
  then show ?case by simp
next
  case (Cons e es)
  from quiescent_step [OF Cons.prems, of e] Cons.IH [of "worker_step e s"]
  show ?case by simp
qed

lemma quiescent_ensure: "quiescent s \<Longrightarrow> quiescent (ensure_thread_started s)"
  by (auto simp: quiescent_def ensure_thread_started_def)

lemma handshake_begin:
  assumes "quiescent s" and "\<not> state_ready s"
  shows "handshake (received s) (sent s) (set_requested s)"
proof (cases "dbus_thread s")
  case None
  with assms show ?thesis by (simp add: handshake_def set_requested_def)
next
  case (Some pc)
  with assms show ?thesis
    by (cases pc) (auto simp: handshake_def set_requested_def quiescent_def untouched_def)
qed

lemma handshake_wait_entry:
  assumes "quiescent s"
  shows "handshake (received s) (sent s) (wait_entry env s)"
proof -
  let ?s1 = "run (before_clear env) (ensure_thread_started s)"
  let ?s2 = "run (before_set env) (clear_ready ?s1)"
  have e: "quiescent (ensure_thread_started s)"
    using assms by (rule quiescent_ensure)
  have r0: "received (ensure_thread_started s) = received s" "sent (ensure_thread_started s) = sent s"
    by (simp_all add: ensure_thread_started_def)
  from quiescent_run [OF e, of "before_clear env"] r0
  have q1: "quiescent ?s1" "received ?s1 = received s" "sent ?s1 = sent s" by simp_all
  then have c: "quiescent (clear_ready ?s1)" "\<not> state_ready (clear_ready ?s1)"
    "received (clear_ready ?s1) = received s" "sent (clear_ready ?s1) = sent s"
    by (simp_all add: quiescent_def clear_ready_def)
  from quiescent_run [OF c(1), of "before_set env"] c
  have q2: "quiescent ?s2" "\<not> state_ready ?s2" "received ?s2 = received s" "sent ?s2 = sent s"
    by simp_all
  from handshake_begin [OF q2(1) q2(2)] q2
  have "handshake (received s) (sent s) (set_requested ?s2)" by simp
  then show ?thesis
    unfolding wait_entry_def by (rule handshake_run)
qed

lemma handshake_wait_exit:
  assumes "quiescent s"
  shows "handshake (received s) (sent s) (wait_exit timeout env s)"
proof -
  obtain es where "wait_exit timeout env s = run es (wait_entry env s)"
    using wait_exit_run by blast
  with handshake_run [OF handshake_wait_entry [OF assms], of es env] show ?thesis by simp
qed

lemma handshake_ready:
  assumes "handshake rs ms s" and "state_ready s"
  shows "dbus_thread s = Some Waiting \<and> \<not> state_requested s \<and> answered rs ms s"
proof (cases "dbus_thread s")
  case None
  with assms show ?thesis by (simp add: handshake_def)
next
  case (Some pc)
  with assms show ?thesis
    by (cases pc) (auto simp: handshake_def untouched_def)
qed

lemma waiting_idle:
  assumes "dbus_thread s = Some Waiting" and "\<not> state_requested s"
  shows "worker_step e s = s"
  using assms by (cases e) (simp_all add: worker_step_def)

lemma waiting_idle_run:
  assumes "dbus_thread s = Some Waiting" and "\<not> state_requested s"
  shows "run es s = s"
  using assms by (induction es) (simp_all add: waiting_idle)

lemma get_state_answered:
  assumes "quiescent s" and "wait_signalled timeout env s"
  shows "dbus_thread (snd (get_state timeout env s)) = Some Waiting \<and>
         \<not> state_requested (snd (get_state timeout env s)) \<and>
         state_ready (snd (get_state timeout env s)) \<and>
         answered (received s) (sent s) (snd (get_state timeout env s)) \<and>
         fst (get_state timeout env s) = Inr (state (snd (get_state timeout env s)))"
proof -
  let ?w = "wait_exit timeout env s"
  have h: "handshake (received s) (sent s) ?w"
    using assms(1) by (rule handshake_wait_exit)
  have t: "fst (get_state_wait timeout env s) = Inr True"
    using assms(2) by (simp add: wait_signalled_def)
  then have rdy: "state_ready ?w"
    unfolding wait_exit_def get_state_wait_def by (rule Event_wait_signalled)
  from handshake_ready [OF h rdy]
  have w: "dbus_thread ?w = Some Waiting" "\<not> state_requested ?w" "answered (received s) (sent s) ?w"
    by simp_all
  have stay: "run es ?w = ?w" for es
    using w(1,2) by (rule waiting_idle_run)
  show ?thesis
    using w rdy by (simp add: get_state_returns [OF t] stay)
qed

section \<open>Invariants of the reachable states\<close>

lemma calls_inv_step: "calls_inv s \<Longrightarrow> calls_inv (worker_step e s)"
  apply (cases "dbus_thread s")
   apply (simp add: calls_inv_def worker_step_def in_request_def)
  subgoal for pc
    apply (cases pc; cases e)
    apply (auto simp: calls_inv_def in_request_def worker_step_def goto_def split: sum.splits)
    done
  done

lemma reachable_calls_inv: "reachable s \<Longrightarrow> calls_inv s"
proof (induction rule: reachable.induct)
  case (init address b)
  show ?case by (simp add: calls_inv_def in_request_def NetworkManager_init_def)
next
  case (worker s e)
  then show ?case by (simp add: calls_inv_step)
next
  case (ensure s)
  then show ?case by (auto simp: calls_inv_def in_request_def ensure_thread_started_def)
next
  case (clear s)
  then show ?case by (simp add: calls_inv_def in_request_def clear_ready_def)
next
  case (request s)
  then show ?case by (simp add: calls_inv_def in_request_def set_requested_def)
qed

lemma slot_inv_step: "slot_inv s \<Longrightarrow> slot_inv (worker_step e s)"
  apply (cases "dbus_thread s")
   apply (simp add: slot_inv_def worker_step_def)
  subgoal for pc
    apply (cases pc; cases e)
    apply (auto simp: slot_inv_def succeeded_def worker_step_def goto_def split: sum.splits)
    done
  done

lemma reachable_slot_inv: "reachable s \<Longrightarrow> slot_inv s"
proof (induction rule: reachable.induct)
  case (init address b)
  show ?case by (simp add: slot_inv_def NetworkManager_init_def)
next
  case (worker s e)
  then show ?case by (simp add: slot_inv_step)
next
  case (ensure s)
  then show ?case by (auto simp: slot_inv_def ensure_thread_started_def)
next
  case (clear s)
  then show ?case
    by (simp add: slot_inv_def clear_ready_def split: option.splits worker_pc.splits)
next
  case (request s)
  then show ?case
    by (simp add: slot_inv_def set_requested_def split: option.splits worker_pc.splits)
qed

lemma reachable_run: "reachable s \<Longrightarrow> reachable (run es s)"
  by (induction es arbitrary: s) (auto intro: reachable.worker)

lemma reachable_wait_entry: "reachable s \<Longrightarrow> reachable (wait_entry env s)"
  unfolding wait_entry_def
  by (intro reachable_run reachable.request reachable.clear reachable.ensure)

lemma reachable_get_state: "reachable s \<Longrightarrow> reachable (snd (get_state timeout env s))"
proof -
  assume r: "reachable s"
  obtain es where "snd (get_state timeout env s) = run es (wait_entry env s)"
    using get_state_run by blast
  with reachable_run [OF reachable_wait_entry [OF r], of es env] show ?thesis by simp
qed

lemma request_inv_step: "request_inv s \<Longrightarrow> request_inv (worker_step e s)"
  apply (cases "dbus_thread s")
   apply (simp add: request_inv_def worker_step_def)
  subgoal for pc
    apply (cases pc; cases e)
    apply (auto simp: request_inv_def worker_step_def goto_def split: sum.splits)
    done
  done

lemma reachable_request_inv: "reachable s \<Longrightarrow> request_inv s"
proof (induction rule: reachable.induct)
  case (init address b)
  show ?case by (simp add: request_inv_def NetworkManager_init_def)
next
  case (worker s e)
  then show ?case by (simp add: request_inv_step)
next
  case (ensure s)
  then show ?case by (auto simp: request_inv_def ensure_thread_started_def)
next
  case (clear s)
  then show ?case
    by (simp add: request_inv_def clear_ready_def split: option.splits worker_pc.splits)
next
  case (request s)
  then show ?case
    by (simp add: request_inv_def set_requested_def split: option.splits worker_pc.splits)
qed

section \<open>Decoding\<close>

lemma by_value_cases:
  "by_value n =
     (if n = 0 then Inr UNKNOWN else if n = 1 then Inr NONE else if n = 2 then Inr PORTAL
      else if n = 3 then Inr LIMITED else if n = 4 then Inr FULL else Inl ValueError)"
  by (simp add: by_value_def members_def)

lemma by_value_in_range:
  assumes "0 \<le> n" and "n \<le> 4"
  shows "\<exists>v. by_value n = Inr v \<and> int_value v = n"
proof -
  from assms have "n = 0 \<or> n = 1 \<or> n = 2 \<or> n = 3 \<or> n = 4" by arith
  then show ?thesis by (auto simp: by_value_cases)
qed

lemma by_value_out_of_range: "n < 0 \<or> 4 < n \<Longrightarrow> by_value n = Inl ValueError"
  by (auto simp: by_value_cases)

lemma by_value_Inr: "by_value n = Inr v \<Longrightarrow> int_value v = n"
  by (auto simp: by_value_cases split: if_splits)

lemma int_value_range: "int_value v \<in> {0, 1, 2, 3, 4}"
  by (cases v) simp_all

lemma member_of_members: "v \<in> set members"
  by (cases v) (simp_all add: members_def)

lemma by_double_cases:
  "by_double x =
     (if x = 0 then Inr UNKNOWN else if x = 1 then Inr NONE else if x = 2 then Inr PORTAL
      else if x = 3 then Inr LIMITED else if x = 4 then Inr FULL else Inl ValueError)"
  by (simp add: by_double_def members_def)

lemma answered_received: "answered rs ms s \<Longrightarrow> received s = rs @ [last (received s)]"
  unfolding answered_def using append_butlast_last_id [of "received s"] by auto

lemma quiescent_init: "quiescent (NetworkManager_init address b)"
  by (simp add: quiescent_def NetworkManager_init_def)

section \<open>What the worker leaves alone\<close>

lemma dead_step: "dbus_thread s = None \<Longrightarrow> worker_step e s = s"
  by (simp add: worker_step_def)

lemma dead_run: "dbus_thread s = None \<Longrightarrow> run es s = s"
  by (induction es) (simp_all add: dead_step)

lemma worker_step_frame:
  "threads_started (worker_step e s) = threads_started s \<and> bus (worker_step e s) = bus s"
proof (cases "dbus_thread s")
  case None
  then show ?thesis by (simp add: worker_step_def)
next
  case (Some pc)
  then show ?thesis
    by (cases pc; cases e) (simp_all add: worker_step_def goto_def split: sum.splits)
qed

lemma run_frame: "threads_started (run es s) = threads_started s \<and> bus (run es s) = bus s"
  by (induction es arbitrary: s) (simp_all add: worker_step_frame)

lemma reuses_bus_step:
  assumes "reuses_bus s"
  shows "reuses_bus (worker_step e s) \<and> connections (worker_step e s) = connections s"
proof (cases "dbus_thread s")
  case None
  with assms show ?thesis by (simp add: worker_step_def)
next
  case (Some pc)
  with assms show ?thesis
    by (cases pc; cases e)
      (auto simp: reuses_bus_def worker_step_def goto_def split: sum.splits)
qed

lemma reuses_bus_run:
  "reuses_bus s \<Longrightarrow> reuses_bus (run es s) \<and> connections (run es s) = connections s"
proof (induction es arbitrary: s)
  case Nil
  then show ?case by simp
next
  case (Cons e es)
  from reuses_bus_step [OF Cons.prems, of e] Cons.IH [of "worker_step e s"]
  show ?case by simp
qed

lemma wait_entry_threads_started:
  "threads_started (wait_entry env s) = threads_started (ensure_thread_started s)"
  by (simp add: wait_entry_def run_frame set_requested_def clear_ready_def)

lemma get_state_threads_started:
  "threads_started (snd (get_state timeout env s)) = threads_started (ensure_thread_started s)"
proof -
  obtain es where "snd (get_state timeout env s) = run es (wait_entry env s)"
    using get_state_run by blast
  then show ?thesis by (simp add: run_frame wait_entry_threads_started)
qed

lemma wait_entry_reuses_bus:
  assumes "reuses_bus s"
  shows "reuses_bus (wait_entry env s) \<and> connections (wait_entry env s) = connections s"
proof -
  let ?s1 = "run (before_clear env) (ensure_thread_started s)"
  let ?s2 = "run (before_set env) (clear_ready ?s1)"
  have "reuses_bus (ensure_thread_started s)"
    "connections (ensure_thread_started s) = connections s"
    using assms by (auto simp: reuses_bus_def ensure_thread_started_def)
  with reuses_bus_run [of "ensure_thread_started s" "before_clear env"]
  have 1: "reuses_bus ?s1" "connections ?s1 = connections s" by simp_all
  then have "reuses_bus (clear_ready ?s1)" "connections (clear_ready ?s1) = connections s"
    by (simp_all add: reuses_bus_def clear_ready_def)
  with reuses_bus_run [of "clear_ready ?s1" "before_set env"]
  have 2: "reuses_bus ?s2" "connections ?s2 = connections s" by simp_all
  then have "reuses_bus (set_requested ?s2)" "connections (set_requested ?s2) = connections s"
    by (simp_all add: reuses_bus_def set_requested_def)
  with reuses_bus_run [of "set_requested ?s2" "before_wait env"]
  show ?thesis by (simp add: wait_entry_def)
qed

lemma get_state_reuses_bus:
  assumes "reuses_bus s"
  shows "connections (snd (get_state timeout env s)) = connections s"
proof -
  obtain es where "snd (get_state timeout env s) = run es (wait_entry env s)"
    using get_state_run by blast
  with wait_entry_reuses_bus [OF assms, of env]
    reuses_bus_run [of "wait_entry env s" es]
  show ?thesis by simp
qed

lemma awaiting_unknown:
  assumes "reachable w" and "dbus_thread w = Some Awaiting"
  shows "state w = UNKNOWN \<and> state_requested w"
  using reachable_slot_inv [OF assms(1)] reachable_request_inv [OF assms(1)] assms(2)
  by (simp add: slot_inv_def request_inv_def)

section \<open>Example calls\<close>

text \<open>
  A first call on a fresh object with the default timeout. The worker connects to the
  system bus, takes the request, and the reply \<^verbatim>\<open>[4]\<close> comes back a tenth of a second
  after the call.
\<close>

lemma example_full:
  "get_state_wait 1
     \<lparr>before_clear = [], before_set = [], before_wait = [],
      during_wait = [(0, Step), (1 / 10, Bus_connected), (0, Step), (0, Step), (0, Step),
        (1 / 10, Bus_reply \<lparr>message_type = METHOD_RETURN, body = [DInt 4]\<rparr>),
        (0, Step), (0, Step), (0, Step)],
      before_return = []\<rparr>
     (NetworkManager_init None None) =
   (Inr True, 1 / 5,
    \<lparr>bus = None, dbus_address = None, state = FULL, state_requested = False,
     state_ready = True, dbus_thread = Some Waiting, sent = [CheckConnectivity],
     received = [\<lparr>message_type = METHOD_RETURN, body = [DInt 4]\<rparr>],
     connections = [SYSTEM], logged = [], handled = Suc 0, threads_started = Suc 0\<rparr>)"
  by (simp add: get_state_wait_def wait_entry_def Event_wait_def TIMEOUT_MAX_def
      worker_step_def goto_def set_requested_def clear_ready_def ensure_thread_started_def
      NetworkManager_init_def target_def by_value_def members_def)

text \<open>The same call when the bus never answers: the wait lasts the whole timeout.\<close>

lemma example_no_reply:
  "get_state_wait 1
     \<lparr>before_clear = [], before_set = [], before_wait = [],
      during_wait = [(0, Step), (1 / 10, Bus_connected), (0, Step), (0, Step), (0, Step)],
      before_return = []\<rparr>
     (NetworkManager_init None None) =
   (Inr False, 1,
    \<lparr>bus = None, dbus_address = None, state = UNKNOWN, state_requested = True,
     state_ready = False, dbus_thread = Some Awaiting, sent = [CheckConnectivity],
     received = [], connections = [SYSTEM], logged = [], handled = Suc 0,
     threads_started = Suc 0\<rparr>)"
  by (simp add: get_state_wait_def wait_entry_def Event_wait_def TIMEOUT_MAX_def
      worker_step_def goto_def set_requested_def clear_ready_def ensure_thread_started_def
      NetworkManager_init_def target_def)

section \<open>The classification of a state\<close>

text \<open>
  C6. For every timeout, every schedule of the worker and every object,
  \<^verbatim>\<open>is_internet_connected(timeout)\<close> returns true exactly when the \<^verbatim>\<open>get_state(timeout)\<close> it
  performs yields \<open>FULL\<close>, and false when it yields \<open>UNKNOWN\<close>, \<open>NONE\<close>, \<open>PORTAL\<close>
  or \<open>LIMITED\<close>; it raises exactly when that \<^verbatim>\<open>get_state\<close> raises, and it leaves the
  object as that \<^verbatim>\<open>get_state\<close> does.
\<close>

theorem is_internet_connected_iff_full:
  "(fst (is_internet_connected timeout env s) = Inr True) =
     (fst (get_state timeout env s) = Inr FULL) \<and>
   fst (is_internet_connected timeout env s) =
     (case fst (get_state timeout env s) of
        Inl e \<Rightarrow> Inl e
      | Inr UNKNOWN \<Rightarrow> Inr False | Inr NONE \<Rightarrow> Inr False | Inr PORTAL \<Rightarrow> Inr False
      | Inr LIMITED \<Rightarrow> Inr False | Inr FULL \<Rightarrow> Inr True) \<and>
   snd (is_internet_connected timeout env s) = snd (get_state timeout env s)"
  by (cases "get_state timeout env s")
    (auto simp: is_internet_connected_def split: sum.splits ConnectivityState.splits)

text \<open>
  C7. For every timeout, every schedule of the worker and every object,
  \<^verbatim>\<open>is_network_connected(timeout)\<close> returns true exactly when the \<^verbatim>\<open>get_state(timeout)\<close> it
  performs yields \<open>PORTAL\<close>, \<open>LIMITED\<close> or \<open>FULL\<close>, and false when it yields
  \<open>UNKNOWN\<close> or \<open>NONE\<close>; it raises exactly when that \<^verbatim>\<open>get_state\<close> raises.
\<close>

theorem is_network_connected_iff_portal_limited_full:
  "(fst (is_network_connected timeout env s) = Inr True) =
     (fst (get_state timeout env s) = Inr PORTAL \<or>
      fst (get_state timeout env s) = Inr LIMITED \<or>
      fst (get_state timeout env s) = Inr FULL) \<and>
   fst (is_network_connected timeout env s) =
     (case fst (get_state timeout env s) of
        Inl e \<Rightarrow> Inl e
      | Inr UNKNOWN \<Rightarrow> Inr False | Inr NONE \<Rightarrow> Inr False | Inr PORTAL \<Rightarrow> Inr True
      | Inr LIMITED \<Rightarrow> Inr True | Inr FULL \<Rightarrow> Inr True) \<and>
   snd (is_network_connected timeout env s) = snd (get_state timeout env s)"
  by (cases "get_state timeout env s")
    (auto simp: is_network_connected_def split: sum.splits ConnectivityState.splits)

text \<open>
  C10. When both booleans are computed from the same observed state (the same call of
  \<^verbatim>\<open>get_state\<close>: same timeout, same schedule, same object), internet-connected implies
  network-connected.
\<close>

theorem internet_connected_implies_network_connected:
  "fst (is_internet_connected timeout env s) = Inr True \<longrightarrow>
   fst (is_network_connected timeout env s) = Inr True"
  by (cases "get_state timeout env s")
    (auto simp: is_internet_connected_def is_network_connected_def split: sum.splits)

theorem internet_connected_implies_network_connected_witness:
  "fst (is_internet_connected 1
     \<lparr>before_clear = [], before_set = [], before_wait = [],
      during_wait = [(0, Step), (1 / 10, Bus_connected), (0, Step), (0, Step), (0, Step),
        (1 / 10, Bus_reply \<lparr>message_type = METHOD_RETURN, body = [DInt 4]\<rparr>),
        (0, Step), (0, Step), (0, Step)],
      before_return = []\<rparr>
     (NetworkManager_init None None)) = Inr True \<and>
   fst (is_network_connected 1
     \<lparr>before_clear = [], before_set = [], before_wait = [],
      during_wait = [(0, Step), (1 / 10, Bus_connected), (0, Step), (0, Step), (0, Step),
        (1 / 10, Bus_reply \<lparr>message_type = METHOD_RETURN, body = [DInt 4]\<rparr>),
        (0, Step), (0, Step), (0, Step)],
      before_return = []\<rparr>
     (NetworkManager_init None None)) = Inr True"
proof -
  let ?env = "\<lparr>before_clear = [], before_set = [], before_wait = [],
      during_wait = [(0, Step), (1 / 10, Bus_connected), (0, Step), (0, Step), (0, Step),
        (1 / 10, Bus_reply \<lparr>message_type = METHOD_RETURN, body = [DInt 4]\<rparr>),
        (0, Step), (0, Step), (0, Step)],
      before_return = []\<rparr>"
  have i: "fst (is_internet_connected 1 ?env (NetworkManager_init None None)) = Inr True"
    by (simp add: is_internet_connected_def get_state_def example_full)
  with internet_connected_implies_network_connected [of 1 ?env "NetworkManager_init None None"]
  show ?thesis by simp
qed

section \<open>What the plugin emits\<close>

text \<open>
  C9. \<^verbatim>\<open>handle_check\<close> asks for the state with the default timeout, which never raises.
  For \<open>FULL\<close> it emits the two "connected" notifications; for a state above \<open>NONE\<close>
  that is not \<open>FULL\<close> (\<open>PORTAL\<close>, \<open>LIMITED\<close>) the one "network connected"
  notification; for \<open>UNKNOWN\<close> and \<open>NONE\<close> the "disconnected" notification and the
  "no internet" alert. It then sleeps for \<open>sleep_time\<close>, which the constructor sets to
  60, and emits the message it was given again.
\<close>

theorem handle_check_notifications:
  "fst (get_state DEFAULT_TIMEOUT env (net_manager p)) =
     Inr (state (snd (get_state DEFAULT_TIMEOUT env (net_manager p)))) \<and>
   fst (handle_check message env p) =
     Inr ((case state (snd (get_state DEFAULT_TIMEOUT env (net_manager p))) of
             FULL \<Rightarrow> [Emit (reply message ''ovos.phal.connectivity.internet.connected''),
                      Emit (reply message ''mycroft.internet.connected'')]
           | LIMITED \<Rightarrow> [Emit (reply message ''ovos.phal.connectivity.network.connected'')]
           | PORTAL \<Rightarrow> [Emit (reply message ''ovos.phal.connectivity.network.connected'')]
           | NONE \<Rightarrow> [Emit (reply message ''ovos.phal.connectivity.disconnected''),
                      Emit (reply message ''enclosure.notify.no_internet'')]
           | UNKNOWN \<Rightarrow> [Emit (reply message ''ovos.phal.connectivity.disconnected''),
                         Emit (reply message ''enclosure.notify.no_internet'')])
          @ [Sleep (sleep_time p), Emit message]) \<and>
   sleep_time (snd (handle_check message env p)) = sleep_time p \<and>
   net_manager (snd (handle_check message env p)) =
     snd (get_state DEFAULT_TIMEOUT env (net_manager p)) \<and>
   sleep_time (snd NetworkManagerEvents_init) = 60"
proof -
  have "DEFAULT_TIMEOUT \<le> TIMEOUT_MAX"
    by (simp add: DEFAULT_TIMEOUT_def TIMEOUT_MAX_def)
  then have g: "fst (get_state DEFAULT_TIMEOUT env (net_manager p)) =
      Inr (state (snd (get_state DEFAULT_TIMEOUT env (net_manager p))))"
    by (rule get_state_accepts)
  obtain r nm where c: "get_state DEFAULT_TIMEOUT env (net_manager p) = (r, nm)"
    by (cases "get_state DEFAULT_TIMEOUT env (net_manager p)")
  with g have r: "r = Inr (state nm)" by simp
  show ?thesis
    using g by (simp add: handle_check_def NetworkManagerEvents_init_def c r
        split: ConnectivityState.splits)
qed

section \<open>The values of the state slot\<close>

text \<open>
  C8. In every reachable state the slot holds one of the five members, with a value from
  0 to 4: it is \<open>UNKNOWN\<close> or the state decoded from a reply that was received. The
  same holds of every value \<^verbatim>\<open>get_state\<close> returns from a reachable state.
\<close>

theorem slot_holds_one_of_five:
  "reachable s \<longrightarrow>
     state s \<in> set members \<and> int_value (state s) \<in> {0, 1, 2, 3, 4} \<and>
     (state s = UNKNOWN \<or> (\<exists>r \<in> set (received s). succeeded r (state s))) \<and>
     (\<forall>v. fst (get_state timeout env s) = Inr v \<longrightarrow>
        v \<in> set members \<and> int_value v \<in> {0, 1, 2, 3, 4} \<and>
        (v = UNKNOWN \<or>
         (\<exists>r \<in> set (received (snd (get_state timeout env s))). succeeded r v)))"
proof
  assume r: "reachable s"
  then have a: "state s = UNKNOWN \<or> (\<exists>r \<in> set (received s). succeeded r (state s))"
    using reachable_slot_inv [of s] by (simp add: slot_inv_def)
  from r have "reachable (snd (get_state timeout env s))"
    by (rule reachable_get_state)
  then have "slot_inv (snd (get_state timeout env s))"
    by (rule reachable_slot_inv)
  then have b: "v = UNKNOWN \<or>
      (\<exists>r \<in> set (received (snd (get_state timeout env s))). succeeded r v)"
    if "fst (get_state timeout env s) = Inr v" for v
    using get_state_value [OF that] by (simp add: slot_inv_def)
  show "state s \<in> set members \<and> int_value (state s) \<in> {0, 1, 2, 3, 4} \<and>
     (state s = UNKNOWN \<or> (\<exists>r \<in> set (received s). succeeded r (state s))) \<and>
     (\<forall>v. fst (get_state timeout env s) = Inr v \<longrightarrow>
        v \<in> set members \<and> int_value v \<in> {0, 1, 2, 3, 4} \<and>
        (v = UNKNOWN \<or>
         (\<exists>r \<in> set (received (snd (get_state timeout env s))). succeeded r v)))"
    using a b int_value_range member_of_members by blast
qed

theorem slot_holds_one_of_five_witness:
  "reachable (NetworkManager_init None None) \<and>
   fst (get_state 1
     \<lparr>before_clear = [], before_set = [], before_wait = [],
      during_wait = [(0, Step), (1 / 10, Bus_connected), (0, Step), (0, Step), (0, Step),
        (1 / 10, Bus_reply \<lparr>message_type = METHOD_RETURN, body = [DInt 4]\<rparr>),
        (0, Step), (0, Step), (0, Step)],
      before_return = []\<rparr>
     (NetworkManager_init None None)) = Inr FULL \<and>
   int_value FULL \<in> {0, 1, 2, 3, 4}"
proof -
  let ?env = "\<lparr>before_clear = [], before_set = [], before_wait = [],
      during_wait = [(0, Step), (1 / 10, Bus_connected), (0, Step), (0, Step), (0, Step),
        (1 / 10, Bus_reply \<lparr>message_type = METHOD_RETURN, body = [DInt 4]\<rparr>),
        (0, Step), (0, Step), (0, Step)],
      before_return = []\<rparr>"
  have r: "reachable (NetworkManager_init None None)"
    by (rule reachable.init)
  have v: "fst (get_state 1 ?env (NetworkManager_init None None)) = Inr FULL"
    by (simp add: get_state_def example_full)
  from slot_holds_one_of_five [of "NetworkManager_init None None" 1 ?env] r v
  show ?thesis by blast
qed

section \<open>Failures in the worker\<close>

text \<open>
  An object built around an injected bus handle: during the first call \<^verbatim>\<open>bus.call\<close>
  raises; during the second the new worker receives the reply \<^verbatim>\<open>[4]\<close>.
\<close>

lemma example_injected_failure:
  "get_state 1
     \<lparr>before_clear = [],
      before_set = [], before_wait = [],
      during_wait = [(0, Step), (0, Step), (0, Step), (0, Step), (1 / 10, Bus_raises),
        (0, Step), (0, Step)],
      before_return = []\<rparr>
     (NetworkManager_init None (Some 0)) =
   (Inr UNKNOWN,
    \<lparr>bus = Some 0, dbus_address = None, state = UNKNOWN, state_requested = True,
      state_ready = False, dbus_thread = None,
      sent = [CheckConnectivity],
      received = [],
      connections = [], logged = [''error occurred while waiting for DBus reply''],
      handled = Suc 0, threads_started = Suc 0\<rparr>)"
  by (simp add: get_state_def get_state_wait_def wait_entry_def Event_wait_def TIMEOUT_MAX_def
      worker_step_def goto_def set_requested_def clear_ready_def ensure_thread_started_def
      NetworkManager_init_def target_def by_value_def members_def)

lemma example_injected_recovery:
  "get_state 1
     \<lparr>before_clear = [],
      before_set = [], before_wait = [],
      during_wait = [(0, Step), (0, Step), (0, Step), (0, Step),
        (1 / 10, Bus_reply \<lparr>message_type = METHOD_RETURN, body = [DInt 4]\<rparr>),
        (0, Step), (0, Step), (0, Step)],
      before_return = []\<rparr>
     \<lparr>bus = Some 0, dbus_address = None, state = UNKNOWN, state_requested = True,
      state_ready = False, dbus_thread = None,
      sent = [CheckConnectivity],
      received = [],
      connections = [], logged = [''error occurred while waiting for DBus reply''],
      handled = Suc 0, threads_started = Suc 0\<rparr> =
   (Inr FULL,
    \<lparr>bus = Some 0, dbus_address = None, state = FULL, state_requested = False,
      state_ready = True, dbus_thread = Some Waiting,
      sent = [CheckConnectivity, CheckConnectivity],
      received = [\<lparr>message_type = METHOD_RETURN, body = [DInt 4]\<rparr>],
      connections = [], logged = [''error occurred while waiting for DBus reply''],
      handled = Suc (Suc 0), threads_started = Suc (Suc 0)\<rparr>)"
  by (simp add: get_state_def get_state_wait_def wait_entry_def Event_wait_def TIMEOUT_MAX_def
      worker_step_def goto_def set_requested_def clear_ready_def ensure_thread_started_def
      NetworkManager_init_def target_def by_value_def members_def)

text \<open>
  C4, as stated, fails when a bus handle was injected at construction: after an exception
  has ended the worker, the next \<^verbatim>\<open>get_state\<close> starts a second worker, which answers over
  the injected handle; no connection is made.
\<close>

theorem injected_bus_is_not_reconnected:
  "dbus_thread (snd (get_state 1
     \<lparr>before_clear = [],
      before_set = [], before_wait = [],
      during_wait = [(0, Step), (0, Step), (0, Step), (0, Step), (1 / 10, Bus_raises),
        (0, Step), (0, Step)],
      before_return = []\<rparr>
     (NetworkManager_init None (Some 0)))) = None \<and>
   logged (snd (get_state 1
     \<lparr>before_clear = [],
      before_set = [], before_wait = [],
      during_wait = [(0, Step), (0, Step), (0, Step), (0, Step), (1 / 10, Bus_raises),
        (0, Step), (0, Step)],
      before_return = []\<rparr>
     (NetworkManager_init None (Some 0)))) =
     [''error occurred while waiting for DBus reply''] \<and>
   fst (get_state 1
     \<lparr>before_clear = [],
      before_set = [], before_wait = [],
      during_wait = [(0, Step), (0, Step), (0, Step), (0, Step),
        (1 / 10, Bus_reply \<lparr>message_type = METHOD_RETURN, body = [DInt 4]\<rparr>),
        (0, Step), (0, Step), (0, Step)],
      before_return = []\<rparr>
     (snd (get_state 1
       \<lparr>before_clear = [],
      before_set = [], before_wait = [],
      during_wait = [(0, Step), (0, Step), (0, Step), (0, Step), (1 / 10, Bus_raises),
        (0, Step), (0, Step)],
      before_return = []\<rparr>
       (NetworkManager_init None (Some 0))))) = Inr FULL \<and>
   threads_started (snd (get_state 1
     \<lparr>before_clear = [],
      before_set = [], before_wait = [],
      during_wait = [(0, Step), (0, Step), (0, Step), (0, Step),
        (1 / 10, Bus_reply \<lparr>message_type = METHOD_RETURN, body = [DInt 4]\<rparr>),
        (0, Step), (0, Step), (0, Step)],
      before_return = []\<rparr>
     (snd (get_state 1
       \<lparr>before_clear = [],
      before_set = [], before_wait = [],
      during_wait = [(0, Step), (0, Step), (0, Step), (0, Step), (1 / 10, Bus_raises),
        (0, Step), (0, Step)],
      before_return = []\<rparr>
       (NetworkManager_init None (Some 0)))))) = 2 \<and>
   connections (snd (get_state 1
     \<lparr>before_clear = [],
      before_set = [], before_wait = [],
      during_wait = [(0, Step), (0, Step), (0, Step), (0, Step),
        (1 / 10, Bus_reply \<lparr>message_type = METHOD_RETURN, body = [DInt 4]\<rparr>),
        (0, Step), (0, Step), (0, Step)],
      before_return = []\<rparr>
     (snd (get_state 1
       \<lparr>before_clear = [],
      before_set = [], before_wait = [],
      during_wait = [(0, Step), (0, Step), (0, Step), (0, Step), (1 / 10, Bus_raises),
        (0, Step), (0, Step)],
      before_return = []\<rparr>
       (NetworkManager_init None (Some 0)))))) = []"
  by (simp only: example_injected_failure example_injected_recovery snd_conv fst_conv)
    simp

text \<open>
  C4, amended. An exception raised while connecting, by \<^verbatim>\<open>bus.call\<close> or while decoding the
  reply ends the worker's loop: the worker logs it, clears the thread handle and changes
  nothing else. A worker that has ended does nothing more, and the worker never starts a
  thread itself: the next \<^verbatim>\<open>get_state\<close> starts exactly one new worker. That worker makes
  a new connection when no bus handle was injected at construction, and otherwise reuses
  the injected handle without connecting.
\<close>

theorem exception_ends_worker:
  "(dbus_thread w = Some Connecting \<or> dbus_thread w = Some Awaiting \<longrightarrow>
      run [Bus_raises, Step, Step] w =
        w\<lparr>logged := logged w @ [''error occurred while waiting for DBus reply''],
          dbus_thread := None\<rparr>) \<and>
   (dbus_thread d = Some (Decoding r) \<and> message_type r \<noteq> ERROR \<and> decode (body r) = Inl e \<longrightarrow>
      run [Step, Step, Step] d =
        d\<lparr>logged := logged d @ [''error occurred while waiting for DBus reply''],
          dbus_thread := None\<rparr>) \<and>
   (dbus_thread s = None \<longrightarrow>
      run es s = s \<and>
      ensure_thread_started s =
        s\<lparr>dbus_thread := Some Starting, threads_started := threads_started s + 1\<rparr> \<and>
      threads_started (snd (get_state timeout env s)) = threads_started s + 1) \<and>
   (dbus_thread s = None \<and> bus s = None \<longrightarrow>
      run [Step, Bus_connected] (ensure_thread_started s) =
        s\<lparr>dbus_thread := Some Waiting, threads_started := threads_started s + 1,
          connections := connections s @ [target s]\<rparr>) \<and>
   (dbus_thread i = None \<and> bus i \<noteq> None \<longrightarrow>
      run [Step] (ensure_thread_started i) =
        i\<lparr>dbus_thread := Some Waiting, threads_started := threads_started i + 1\<rparr> \<and>
      connections (snd (get_state timeout env i)) = connections i) \<and>
   threads_started (run es w) = threads_started w"
proof (intro conjI impI)
  assume "dbus_thread w = Some Connecting \<or> dbus_thread w = Some Awaiting"
  then show "run [Bus_raises, Step, Step] w =
        w\<lparr>logged := logged w @ [''error occurred while waiting for DBus reply''],
          dbus_thread := None\<rparr>"
    by (auto simp: worker_step_def goto_def)
next
  assume "dbus_thread d = Some (Decoding r) \<and> message_type r \<noteq> ERROR \<and> decode (body r) = Inl e"
  then show "run [Step, Step, Step] d =
        d\<lparr>logged := logged d @ [''error occurred while waiting for DBus reply''],
          dbus_thread := None\<rparr>"
    by (simp add: worker_step_def goto_def)
next
  assume n: "dbus_thread s = None"
  then show "run es s = s" by (rule dead_run)
  from n show "ensure_thread_started s =
        s\<lparr>dbus_thread := Some Starting, threads_started := threads_started s + 1\<rparr>"
    by (simp add: ensure_thread_started_def)
  from n show "threads_started (snd (get_state timeout env s)) = threads_started s + 1"
    by (simp add: get_state_threads_started ensure_thread_started_def)
next
  assume "dbus_thread s = None \<and> bus s = None"
  then show "run [Step, Bus_connected] (ensure_thread_started s) =
        s\<lparr>dbus_thread := Some Waiting, threads_started := threads_started s + 1,
          connections := connections s @ [target s]\<rparr>"
    by (simp add: ensure_thread_started_def worker_step_def goto_def target_def)
next
  assume a: "dbus_thread i = None \<and> bus i \<noteq> None"
  then show "run [Step] (ensure_thread_started i) =
        i\<lparr>dbus_thread := Some Waiting, threads_started := threads_started i + 1\<rparr>"
    by (auto simp: ensure_thread_started_def worker_step_def goto_def)
  from a have "reuses_bus i" by (simp add: reuses_bus_def)
  then show "connections (snd (get_state timeout env i)) = connections i"
    by (rule get_state_reuses_bus)
next
  show "threads_started (run es w) = threads_started w"
    by (simp add: run_frame)
qed

theorem exception_ends_worker_witness:
  "dbus_thread
     \<lparr>bus = None, dbus_address = None, state = UNKNOWN, state_requested = True,
      state_ready = False, dbus_thread = Some Awaiting,
      sent = [CheckConnectivity],
      received = [],
      connections = [SYSTEM], logged = [],
      handled = Suc 0, threads_started = Suc 0\<rparr> = Some Awaiting \<and>
   run [Bus_raises, Step, Step]
     \<lparr>bus = None, dbus_address = None, state = UNKNOWN, state_requested = True,
      state_ready = False, dbus_thread = Some Awaiting,
      sent = [CheckConnectivity],
      received = [],
      connections = [SYSTEM], logged = [],
      handled = Suc 0, threads_started = Suc 0\<rparr> =
     \<lparr>bus = None, dbus_address = None, state = UNKNOWN, state_requested = True,
      state_ready = False, dbus_thread = None,
      sent = [CheckConnectivity],
      received = [],
      connections = [SYSTEM], logged = [''error occurred while waiting for DBus reply''],
      handled = Suc 0, threads_started = Suc 0\<rparr> \<and>
   decode (body \<lparr>message_type = METHOD_RETURN, body = [DInt 5]\<rparr>) = Inl ValueError \<and>
   dbus_thread (run [Step, Step, Step]
     \<lparr>bus = None, dbus_address = None, state = UNKNOWN, state_requested = True,
      state_ready = False, dbus_thread = Some (Decoding \<lparr>message_type = METHOD_RETURN, body = [DInt 5]\<rparr>),
      sent = [CheckConnectivity],
      received = [\<lparr>message_type = METHOD_RETURN, body = [DInt 5]\<rparr>],
      connections = [SYSTEM], logged = [],
      handled = Suc 0, threads_started = Suc 0\<rparr>) = None \<and>
   threads_started (snd (get_state 1
     \<lparr>before_clear = [],
      before_set = [], before_wait = [],
      during_wait = [(0, Step), (0, Step), (0, Step), (0, Step),
        (1 / 10, Bus_reply \<lparr>message_type = METHOD_RETURN, body = [DInt 4]\<rparr>),
        (0, Step), (0, Step), (0, Step)],
      before_return = []\<rparr>
     \<lparr>bus = None, dbus_address = None, state = UNKNOWN, state_requested = True,
      state_ready = False, dbus_thread = None,
      sent = [CheckConnectivity],
      received = [],
      connections = [SYSTEM], logged = [''error occurred while waiting for DBus reply''],
      handled = Suc 0, threads_started = Suc 0\<rparr>)) = 2 \<and>
   connections (run [Step, Bus_connected] (ensure_thread_started
     \<lparr>bus = None, dbus_address = None, state = UNKNOWN, state_requested = True,
      state_ready = False, dbus_thread = None,
      sent = [CheckConnectivity],
      received = [],
      connections = [SYSTEM], logged = [''error occurred while waiting for DBus reply''],
      handled = Suc 0, threads_started = Suc 0\<rparr>)) = [SYSTEM, SYSTEM] \<and>
   bus
     \<lparr>bus = Some 0, dbus_address = None, state = UNKNOWN, state_requested = True,
      state_ready = False, dbus_thread = None,
      sent = [CheckConnectivity],
      received = [],
      connections = [], logged = [''error occurred while waiting for DBus reply''],
      handled = Suc 0, threads_started = Suc 0\<rparr> = Some 0 \<and>
   connections (snd (get_state 1
     \<lparr>before_clear = [],
      before_set = [], before_wait = [],
      during_wait = [(0, Step), (0, Step), (0, Step), (0, Step),
        (1 / 10, Bus_reply \<lparr>message_type = METHOD_RETURN, body = [DInt 4]\<rparr>),
        (0, Step), (0, Step), (0, Step)],
      before_return = []\<rparr>
     \<lparr>bus = Some 0, dbus_address = None, state = UNKNOWN, state_requested = True,
      state_ready = False, dbus_thread = None,
      sent = [CheckConnectivity],
      received = [],
      connections = [], logged = [''error occurred while waiting for DBus reply''],
      handled = Suc 0, threads_started = Suc 0\<rparr>)) = []"
proof -
  let ?bad = "\<lparr>message_type = METHOD_RETURN, body = [DInt 5]\<rparr>"
  let ?A = "\<lparr>bus = None, dbus_address = None, state = UNKNOWN, state_requested = True,
      state_ready = False, dbus_thread = Some Awaiting,
      sent = [CheckConnectivity],
      received = [],
      connections = [SYSTEM], logged = [],
      handled = Suc 0, threads_started = Suc 0\<rparr>"
  let ?D = "\<lparr>bus = None, dbus_address = None, state = UNKNOWN, state_requested = True,
      state_ready = False, dbus_thread = Some (Decoding \<lparr>message_type = METHOD_RETURN, body = [DInt 5]\<rparr>),
      sent = [CheckConnectivity],
      received = [\<lparr>message_type = METHOD_RETURN, body = [DInt 5]\<rparr>],
      connections = [SYSTEM], logged = [],
      handled = Suc 0, threads_started = Suc 0\<rparr>"
  let ?S = "\<lparr>bus = None, dbus_address = None, state = UNKNOWN, state_requested = True,
      state_ready = False, dbus_thread = None,
      sent = [CheckConnectivity],
      received = [],
      connections = [SYSTEM], logged = [''error occurred while waiting for DBus reply''],
      handled = Suc 0, threads_started = Suc 0\<rparr>"
  let ?I = "\<lparr>bus = Some 0, dbus_address = None, state = UNKNOWN, state_requested = True,
      state_ready = False, dbus_thread = None,
      sent = [CheckConnectivity],
      received = [],
      connections = [], logged = [''error occurred while waiting for DBus reply''],
      handled = Suc 0, threads_started = Suc 0\<rparr>"
  let ?env = "\<lparr>before_clear = [],
      before_set = [], before_wait = [],
      during_wait = [(0, Step), (0, Step), (0, Step), (0, Step),
        (1 / 10, Bus_reply \<lparr>message_type = METHOD_RETURN, body = [DInt 4]\<rparr>),
        (0, Step), (0, Step), (0, Step)],
      before_return = []\<rparr>"
  note c4 = exception_ends_worker [where w = ?A and d = ?D and r = ?bad and e = ValueError
      and s = ?S and i = ?I and timeout = 1 and env = ?env and es = "[]"]
  have a: "dbus_thread ?A = Some Awaiting" by simp
  have b: "decode (body ?bad) = Inl ValueError"
    by (simp add: by_value_out_of_range)
  have d: "dbus_thread ?D = Some (Decoding ?bad)" "message_type ?bad \<noteq> ERROR" by simp_all
  have s: "dbus_thread ?S = None" "bus ?S = None" by simp_all
  have i: "dbus_thread ?I = None" "bus ?I = Some 0" by simp_all
  from c4 a have "run [Bus_raises, Step, Step] ?A =
      ?A\<lparr>logged := logged ?A @ [''error occurred while waiting for DBus reply''], dbus_thread := None\<rparr>"
    by blast
  then have 1: "run [Bus_raises, Step, Step] ?A = ?S" by simp
  from c4 d b have "run [Step, Step, Step] ?D =
      ?D\<lparr>logged := logged ?D @ [''error occurred while waiting for DBus reply''], dbus_thread := None\<rparr>"
    by blast
  then have 2: "dbus_thread (run [Step, Step, Step] ?D) = None" by simp
  from c4 s have "threads_started (snd (get_state 1 ?env ?S)) = threads_started ?S + 1"
    by blast
  then have 3: "threads_started (snd (get_state 1 ?env ?S)) = 2" by simp
  from c4 s have "run [Step, Bus_connected] (ensure_thread_started ?S) =
      ?S\<lparr>dbus_thread := Some Waiting, threads_started := threads_started ?S + 1,
        connections := connections ?S @ [target ?S]\<rparr>"
    by blast
  then have 4: "connections (run [Step, Bus_connected] (ensure_thread_started ?S)) =
      [SYSTEM, SYSTEM]"
    by (simp add: target_def)
  from c4 i have "connections (snd (get_state 1 ?env ?I)) = connections ?I"
    by blast
  then have 5: "connections (snd (get_state 1 ?env ?I)) = []" by simp
  from a 1 b 2 3 4 i(2) 5 show ?thesis by blast
qed

section \<open>The request handshake\<close>

text \<open>
  A call that times out while the worker awaits the bus, followed by a second call. The
  reply \<^verbatim>\<open>[4]\<close> to the first request arrives as the second call begins; the worker
  stores it and clears "request pending" before the caller clears "result ready" and
  raises "request pending" again, and sets "result ready" after. The second call is woken
  by the signal of the first request.
\<close>

lemma example_timed_out:
  "get_state 1
     \<lparr>before_clear = [],
      before_set = [], before_wait = [],
      during_wait = [(0, Step), (1 / 10, Bus_connected), (0, Step), (0, Step), (0, Step)],
      before_return = []\<rparr>
     (NetworkManager_init None None) =
   (Inr UNKNOWN,
    \<lparr>bus = None, dbus_address = None, state = UNKNOWN, state_requested = True,
      state_ready = False, dbus_thread = Some Awaiting,
      sent = [CheckConnectivity],
      received = [],
      connections = [SYSTEM], logged = [],
      handled = Suc 0, threads_started = Suc 0\<rparr>)"
  by (simp add: get_state_def example_no_reply)

text \<open>
  C1, as stated, fails after a call that timed out. The first call, on a fresh object, is
  not signalled and returns \<open>UNKNOWN\<close> before its reply arrives. The second call is signalled and
  returns \<open>UNKNOWN\<close>: the worker has already taken the second request and reset the
  slot. That request is then answered by the success reply \<^verbatim>\<open>[2]\<close> and the slot set to
  \<open>PORTAL\<close>. Neither call returns the \<open>FULL\<close> of the first reply or the
  \<open>PORTAL\<close> of the second.
\<close>

theorem signalled_call_misses_its_reply:
  "get_state 1
     \<lparr>before_clear = [],
      before_set = [], before_wait = [],
      during_wait = [(0, Step), (1 / 10, Bus_connected), (0, Step), (0, Step), (0, Step)],
      before_return = []\<rparr>
     (NetworkManager_init None None) =
   (Inr UNKNOWN,
    \<lparr>bus = None, dbus_address = None, state = UNKNOWN, state_requested = True,
      state_ready = False, dbus_thread = Some Awaiting,
      sent = [CheckConnectivity],
      received = [],
      connections = [SYSTEM], logged = [],
      handled = Suc 0, threads_started = Suc 0\<rparr>) \<and>
   \<not> wait_signalled 1
     \<lparr>before_clear = [],
      before_set = [], before_wait = [],
      during_wait = [(0, Step), (1 / 10, Bus_connected), (0, Step), (0, Step), (0, Step)],
      before_return = []\<rparr>
     (NetworkManager_init None None) \<and>
   wait_signalled 1
     \<lparr>before_clear = [Bus_reply \<lparr>message_type = METHOD_RETURN, body = [DInt 4]\<rparr>, Step, Step],
      before_set = [], before_wait = [],
      during_wait = [(0, Step)],
      before_return = [Step, Step]\<rparr>
     \<lparr>bus = None, dbus_address = None, state = UNKNOWN, state_requested = True,
      state_ready = False, dbus_thread = Some Awaiting,
      sent = [CheckConnectivity],
      received = [],
      connections = [SYSTEM], logged = [],
      handled = Suc 0, threads_started = Suc 0\<rparr> \<and>
   get_state 1
     \<lparr>before_clear = [Bus_reply \<lparr>message_type = METHOD_RETURN, body = [DInt 4]\<rparr>, Step, Step],
      before_set = [], before_wait = [],
      during_wait = [(0, Step)],
      before_return = [Step, Step]\<rparr>
     \<lparr>bus = None, dbus_address = None, state = UNKNOWN, state_requested = True,
      state_ready = False, dbus_thread = Some Awaiting,
      sent = [CheckConnectivity],
      received = [],
      connections = [SYSTEM], logged = [],
      handled = Suc 0, threads_started = Suc 0\<rparr> =
   (Inr UNKNOWN,
    \<lparr>bus = None, dbus_address = None, state = UNKNOWN, state_requested = True,
      state_ready = True, dbus_thread = Some Calling,
      sent = [CheckConnectivity],
      received = [\<lparr>message_type = METHOD_RETURN, body = [DInt 4]\<rparr>],
      connections = [SYSTEM], logged = [],
      handled = Suc (Suc 0), threads_started = Suc 0\<rparr>) \<and>
   run [Step, Bus_reply \<lparr>message_type = METHOD_RETURN, body = [DInt 2]\<rparr>, Step]
     \<lparr>bus = None, dbus_address = None, state = UNKNOWN, state_requested = True,
      state_ready = True, dbus_thread = Some Calling,
      sent = [CheckConnectivity],
      received = [\<lparr>message_type = METHOD_RETURN, body = [DInt 4]\<rparr>],
      connections = [SYSTEM], logged = [],
      handled = Suc (Suc 0), threads_started = Suc 0\<rparr> =
     \<lparr>bus = None, dbus_address = None, state = PORTAL, state_requested = True,
      state_ready = True, dbus_thread = Some Clearing,
      sent = [CheckConnectivity, CheckConnectivity],
      received = [\<lparr>message_type = METHOD_RETURN, body = [DInt 4]\<rparr>,
       \<lparr>message_type = METHOD_RETURN, body = [DInt 2]\<rparr>],
      connections = [SYSTEM], logged = [],
      handled = Suc (Suc 0), threads_started = Suc 0\<rparr>"
proof (intro conjI)
  show "get_state 1
     \<lparr>before_clear = [],
      before_set = [], before_wait = [],
      during_wait = [(0, Step), (1 / 10, Bus_connected), (0, Step), (0, Step), (0, Step)],
      before_return = []\<rparr>
     (NetworkManager_init None None) =
   (Inr UNKNOWN,
    \<lparr>bus = None, dbus_address = None, state = UNKNOWN, state_requested = True,
      state_ready = False, dbus_thread = Some Awaiting,
      sent = [CheckConnectivity],
      received = [],
      connections = [SYSTEM], logged = [],
      handled = Suc 0, threads_started = Suc 0\<rparr>)"
    by (rule example_timed_out)
  show "\<not> wait_signalled 1
     \<lparr>before_clear = [],
      before_set = [], before_wait = [],
      during_wait = [(0, Step), (1 / 10, Bus_connected), (0, Step), (0, Step), (0, Step)],
      before_return = []\<rparr>
     (NetworkManager_init None None)"
    by (simp add: wait_signalled_def example_no_reply)
  show "wait_signalled 1
     \<lparr>before_clear = [Bus_reply \<lparr>message_type = METHOD_RETURN, body = [DInt 4]\<rparr>, Step, Step],
      before_set = [], before_wait = [],
      during_wait = [(0, Step)],
      before_return = [Step, Step]\<rparr>
     \<lparr>bus = None, dbus_address = None, state = UNKNOWN, state_requested = True,
      state_ready = False, dbus_thread = Some Awaiting,
      sent = [CheckConnectivity],
      received = [],
      connections = [SYSTEM], logged = [],
      handled = Suc 0, threads_started = Suc 0\<rparr>"
    by (simp add: wait_signalled_def get_state_wait_def wait_entry_def Event_wait_def
      TIMEOUT_MAX_def worker_step_def goto_def set_requested_def clear_ready_def
      ensure_thread_started_def NetworkManager_init_def target_def by_value_def members_def)
  show "get_state 1
     \<lparr>before_clear = [Bus_reply \<lparr>message_type = METHOD_RETURN, body = [DInt 4]\<rparr>, Step, Step],
      before_set = [], before_wait = [],
      during_wait = [(0, Step)],
      before_return = [Step, Step]\<rparr>
     \<lparr>bus = None, dbus_address = None, state = UNKNOWN, state_requested = True,
      state_ready = False, dbus_thread = Some Awaiting,
      sent = [CheckConnectivity],
      received = [],
      connections = [SYSTEM], logged = [],
      handled = Suc 0, threads_started = Suc 0\<rparr> =
   (Inr UNKNOWN,
    \<lparr>bus = None, dbus_address = None, state = UNKNOWN, state_requested = True,
      state_ready = True, dbus_thread = Some Calling,
      sent = [CheckConnectivity],
      received = [\<lparr>message_type = METHOD_RETURN, body = [DInt 4]\<rparr>],
      connections = [SYSTEM], logged = [],
      handled = Suc (Suc 0), threads_started = Suc 0\<rparr>)"
    by (simp add: get_state_def get_state_wait_def wait_entry_def Event_wait_def TIMEOUT_MAX_def
      worker_step_def goto_def set_requested_def clear_ready_def ensure_thread_started_def
      NetworkManager_init_def target_def by_value_def members_def)
  show "run [Step, Bus_reply \<lparr>message_type = METHOD_RETURN, body = [DInt 2]\<rparr>, Step]
     \<lparr>bus = None, dbus_address = None, state = UNKNOWN, state_requested = True,
      state_ready = True, dbus_thread = Some Calling,
      sent = [CheckConnectivity],
      received = [\<lparr>message_type = METHOD_RETURN, body = [DInt 4]\<rparr>],
      connections = [SYSTEM], logged = [],
      handled = Suc (Suc 0), threads_started = Suc 0\<rparr> =
     \<lparr>bus = None, dbus_address = None, state = PORTAL, state_requested = True,
      state_ready = True, dbus_thread = Some Clearing,
      sent = [CheckConnectivity, CheckConnectivity],
      received = [\<lparr>message_type = METHOD_RETURN, body = [DInt 4]\<rparr>,
       \<lparr>message_type = METHOD_RETURN, body = [DInt 2]\<rparr>],
      connections = [SYSTEM], logged = [],
      handled = Suc (Suc 0), threads_started = Suc 0\<rparr>"
    by (simp add: worker_step_def goto_def by_value_def members_def)
qed

text \<open>
  C1, amended. Every message the worker has handed to \<^verbatim>\<open>bus.call\<close> is the call of
  \<^verbatim>\<open>CheckConnectivity\<close> on destination \<^verbatim>\<open>org.freedesktop.NetworkManager\<close>, path
  \<^verbatim>\<open>/org/freedesktop/NetworkManager\<close>, interface \<^verbatim>\<open>org.freedesktop.NetworkManager\<close>, and in
  every reachable state the number of calls issued equals the number of requests the
  worker has taken, less the one whose call is still to be issued: one call per request.
  When the worker awaits the call and the reply is not of error type and begins with an
  integer \<open>n\<close> from 0 to 4, the worker stores the state whose value is \<open>n\<close>. A
  \<^verbatim>\<open>get_state\<close> that starts with no request pending or in flight and whose wait is
  signalled, whatever the interleaving with the worker, sees exactly one such call go out
  and exactly one reply come in, and when that reply is such a success it returns the
  state whose value is \<open>n\<close>.
\<close>

theorem check_connectivity_once_per_request:
  "(reachable s \<longrightarrow>
      list_all (\<lambda>m. m =
        \<lparr>destination = ''org.freedesktop.NetworkManager'',
          path = ''/org/freedesktop/NetworkManager'',
          interface = ''org.freedesktop.NetworkManager'',
          member = ''CheckConnectivity''\<rparr>) (sent s) \<and>
      length (sent s) + in_request s = handled s) \<and>
   (dbus_thread w = Some Awaiting \<and> message_type r \<noteq> ERROR \<and> body r = DInt n # rest \<and>
    0 \<le> n \<and> n \<le> 4 \<longrightarrow>
      int_value (state (run [Bus_reply r, Step] w)) = n \<and>
      dbus_thread (run [Bus_reply r, Step] w) = Some Clearing) \<and>
   (quiescent s \<and> wait_signalled timeout env s \<longrightarrow>
      sent (snd (get_state timeout env s)) = sent s @
        [\<lparr>destination = ''org.freedesktop.NetworkManager'',
          path = ''/org/freedesktop/NetworkManager'',
          interface = ''org.freedesktop.NetworkManager'',
          member = ''CheckConnectivity''\<rparr>] \<and>
      (\<exists>r'. received (snd (get_state timeout env s)) = received s @ [r'])) \<and>
   (quiescent s \<and> wait_signalled timeout env s \<and>
    received (snd (get_state timeout env s)) = received s @ [r] \<and>
    message_type r \<noteq> ERROR \<and> body r = DInt n # rest \<and> 0 \<le> n \<and> n \<le> 4 \<longrightarrow>
      (\<exists>v. fst (get_state timeout env s) = Inr v \<and> int_value v = n))"
proof (intro conjI impI)
  assume "reachable s"
  then have "calls_inv s" by (rule reachable_calls_inv)
  then show "list_all (\<lambda>m. m =
        \<lparr>destination = ''org.freedesktop.NetworkManager'',
          path = ''/org/freedesktop/NetworkManager'',
          interface = ''org.freedesktop.NetworkManager'',
          member = ''CheckConnectivity''\<rparr>) (sent s)"
    and "length (sent s) + in_request s = handled s"
    by (simp_all add: calls_inv_def CheckConnectivity_def)
next
  assume a: "dbus_thread w = Some Awaiting \<and> message_type r \<noteq> ERROR \<and> body r = DInt n # rest \<and>
    0 \<le> n \<and> n \<le> 4"
  then obtain v where v: "by_value n = Inr v" "int_value v = n"
    using by_value_in_range [of n] by blast
  with a show "int_value (state (run [Bus_reply r, Step] w)) = n"
    and "dbus_thread (run [Bus_reply r, Step] w) = Some Clearing"
    by (simp_all add: worker_step_def goto_def)
next
  assume "quiescent s \<and> wait_signalled timeout env s"
  then have "answered (received s) (sent s) (snd (get_state timeout env s))"
    using get_state_answered [of s timeout env] by blast
  then show "sent (snd (get_state timeout env s)) = sent s @
        [\<lparr>destination = ''org.freedesktop.NetworkManager'',
          path = ''/org/freedesktop/NetworkManager'',
          interface = ''org.freedesktop.NetworkManager'',
          member = ''CheckConnectivity''\<rparr>]"
    and "\<exists>r'. received (snd (get_state timeout env s)) = received s @ [r']"
    using answered_received [of "received s" "sent s" "snd (get_state timeout env s)"]
    by (auto simp: answered_def CheckConnectivity_def)
next
  assume a: "quiescent s \<and> wait_signalled timeout env s \<and>
    received (snd (get_state timeout env s)) = received s @ [r] \<and>
    message_type r \<noteq> ERROR \<and> body r = DInt n # rest \<and> 0 \<le> n \<and> n \<le> 4"
  then have g: "answered (received s) (sent s) (snd (get_state timeout env s))"
    "fst (get_state timeout env s) = Inr (state (snd (get_state timeout env s)))"
    using get_state_answered [of s timeout env] by blast+
  with a have "by_value n = Inr (state (snd (get_state timeout env s)))"
    by (simp add: answered_def outcome_def)
  then have "int_value (state (snd (get_state timeout env s))) = n"
    by (rule by_value_Inr)
  with g(2) show "\<exists>v. fst (get_state timeout env s) = Inr v \<and> int_value v = n"
    by blast
qed

theorem check_connectivity_once_per_request_witness:
  "reachable (NetworkManager_init None None) \<and>
   quiescent (NetworkManager_init None None) \<and>
   wait_signalled 1
     \<lparr>before_clear = [],
      before_set = [], before_wait = [],
      during_wait = [(0, Step), (1 / 10, Bus_connected), (0, Step), (0, Step), (0, Step),
        (1 / 10, Bus_reply \<lparr>message_type = METHOD_RETURN, body = [DInt 4]\<rparr>),
        (0, Step), (0, Step), (0, Step)],
      before_return = []\<rparr>
     (NetworkManager_init None None) \<and>
   sent (snd (get_state 1
     \<lparr>before_clear = [],
      before_set = [], before_wait = [],
      during_wait = [(0, Step), (1 / 10, Bus_connected), (0, Step), (0, Step), (0, Step),
        (1 / 10, Bus_reply \<lparr>message_type = METHOD_RETURN, body = [DInt 4]\<rparr>),
        (0, Step), (0, Step), (0, Step)],
      before_return = []\<rparr>
     (NetworkManager_init None None))) =
     [\<lparr>destination = ''org.freedesktop.NetworkManager'',
          path = ''/org/freedesktop/NetworkManager'',
          interface = ''org.freedesktop.NetworkManager'',
          member = ''CheckConnectivity''\<rparr>] \<and>
   fst (get_state 1
     \<lparr>before_clear = [],
      before_set = [], before_wait = [],
      during_wait = [(0, Step), (1 / 10, Bus_connected), (0, Step), (0, Step), (0, Step),
        (1 / 10, Bus_reply \<lparr>message_type = METHOD_RETURN, body = [DInt 4]\<rparr>),
        (0, Step), (0, Step), (0, Step)],
      before_return = []\<rparr>
     (NetworkManager_init None None)) = Inr FULL \<and>
   int_value (state (run [Bus_reply \<lparr>message_type = METHOD_RETURN, body = [DInt 4]\<rparr>, Step]
     \<lparr>bus = None, dbus_address = None, state = UNKNOWN, state_requested = True,
      state_ready = False, dbus_thread = Some Awaiting,
      sent = [CheckConnectivity],
      received = [],
      connections = [SYSTEM], logged = [],
      handled = Suc 0, threads_started = Suc 0\<rparr>)) = 4"
proof -
  let ?r = "\<lparr>message_type = METHOD_RETURN, body = [DInt 4]\<rparr>"
  let ?env = "\<lparr>before_clear = [],
      before_set = [], before_wait = [],
      during_wait = [(0, Step), (1 / 10, Bus_connected), (0, Step), (0, Step), (0, Step),
        (1 / 10, Bus_reply \<lparr>message_type = METHOD_RETURN, body = [DInt 4]\<rparr>),
        (0, Step), (0, Step), (0, Step)],
      before_return = []\<rparr>"
  let ?s = "NetworkManager_init None None"
  let ?w = "\<lparr>bus = None, dbus_address = None, state = UNKNOWN, state_requested = True,
      state_ready = False, dbus_thread = Some Awaiting,
      sent = [CheckConnectivity],
      received = [],
      connections = [SYSTEM], logged = [],
      handled = Suc 0, threads_started = Suc 0\<rparr>"
  have r: "reachable ?s" by (rule reachable.init)
  have q: "quiescent ?s" by (rule quiescent_init)
  have sg: "wait_signalled 1 ?env ?s"
    by (simp add: wait_signalled_def example_full)
  have "received (snd (get_state 1 ?env ?s)) = [?r]"
    by (simp add: get_state_def example_full)
  moreover have "received ?s = []" by (simp add: NetworkManager_init_def)
  ultimately have rc: "received (snd (get_state 1 ?env ?s)) = received ?s @ [?r]" by simp
  have s0: "sent ?s = []" by (simp add: NetworkManager_init_def)
  have w: "dbus_thread ?w = Some Awaiting" by simp
  note c1 = check_connectivity_once_per_request [of ?s ?w ?r 4 "[]" 1 ?env]
  from c1 q sg s0 have 1: "sent (snd (get_state 1 ?env ?s)) =
     [\<lparr>destination = ''org.freedesktop.NetworkManager'',
          path = ''/org/freedesktop/NetworkManager'',
          interface = ''org.freedesktop.NetworkManager'',
          member = ''CheckConnectivity''\<rparr>]"
    by simp
  from c1 q sg rc obtain v where v: "fst (get_state 1 ?env ?s) = Inr v" "int_value v = 4"
    by auto
  then have "v = FULL" by (cases v) simp_all
  with v have 2: "fst (get_state 1 ?env ?s) = Inr FULL" by simp
  from c1 w have 3: "int_value (state (run [Bus_reply ?r, Step] ?w)) = 4"
    by simp
  from r q sg 1 2 3 show ?thesis by blast
qed

text \<open>
  C3, as stated, fails after a call that timed out. The second call is signalled and
  returns \<open>FULL\<close>, the value stored for the request of the call before it; the request
  it raised itself is then answered by an error reply. A call that starts with nothing
  pending and times out before the worker takes its request returns the cached \<open>FULL\<close>
  as well, and that request too is then answered by an error reply.
\<close>

theorem signalled_call_returns_stale_value:
  "get_state 1
     \<lparr>before_clear = [],
      before_set = [], before_wait = [],
      during_wait = [(0, Step), (1 / 10, Bus_connected), (0, Step), (0, Step), (0, Step)],
      before_return = []\<rparr>
     (NetworkManager_init None None) =
   (Inr UNKNOWN,
    \<lparr>bus = None, dbus_address = None, state = UNKNOWN, state_requested = True,
      state_ready = False, dbus_thread = Some Awaiting,
      sent = [CheckConnectivity],
      received = [],
      connections = [SYSTEM], logged = [],
      handled = Suc 0, threads_started = Suc 0\<rparr>) \<and>
   wait_signalled 1
     \<lparr>before_clear = [Bus_reply \<lparr>message_type = METHOD_RETURN, body = [DInt 4]\<rparr>, Step, Step],
      before_set = [], before_wait = [],
      during_wait = [(0, Step)],
      before_return = []\<rparr>
     \<lparr>bus = None, dbus_address = None, state = UNKNOWN, state_requested = True,
      state_ready = False, dbus_thread = Some Awaiting,
      sent = [CheckConnectivity],
      received = [],
      connections = [SYSTEM], logged = [],
      handled = Suc 0, threads_started = Suc 0\<rparr> \<and>
   get_state 1
     \<lparr>before_clear = [Bus_reply \<lparr>message_type = METHOD_RETURN, body = [DInt 4]\<rparr>, Step, Step],
      before_set = [], before_wait = [],
      during_wait = [(0, Step)],
      before_return = []\<rparr>
     \<lparr>bus = None, dbus_address = None, state = UNKNOWN, state_requested = True,
      state_ready = False, dbus_thread = Some Awaiting,
      sent = [CheckConnectivity],
      received = [],
      connections = [SYSTEM], logged = [],
      handled = Suc 0, threads_started = Suc 0\<rparr> =
   (Inr FULL,
    \<lparr>bus = None, dbus_address = None, state = FULL, state_requested = True,
      state_ready = True, dbus_thread = Some Waiting,
      sent = [CheckConnectivity],
      received = [\<lparr>message_type = METHOD_RETURN, body = [DInt 4]\<rparr>],
      connections = [SYSTEM], logged = [],
      handled = Suc 0, threads_started = Suc 0\<rparr>) \<and>
   run [Step, Step, Step, Bus_reply \<lparr>message_type = ERROR, body = []\<rparr>, Step, Step, Step]
     \<lparr>bus = None, dbus_address = None, state = FULL, state_requested = True,
      state_ready = True, dbus_thread = Some Waiting,
      sent = [CheckConnectivity],
      received = [\<lparr>message_type = METHOD_RETURN, body = [DInt 4]\<rparr>],
      connections = [SYSTEM], logged = [],
      handled = Suc 0, threads_started = Suc 0\<rparr> =
     \<lparr>bus = None, dbus_address = None, state = UNKNOWN, state_requested = False,
      state_ready = True, dbus_thread = Some Waiting,
      sent = [CheckConnectivity, CheckConnectivity],
      received = [\<lparr>message_type = METHOD_RETURN, body = [DInt 4]\<rparr>,
       \<lparr>message_type = ERROR, body = []\<rparr>],
      connections = [SYSTEM], logged = [],
      handled = Suc (Suc 0), threads_started = Suc 0\<rparr> \<and>
   \<not> wait_signalled 1
     \<lparr>before_clear = [],
      before_set = [], before_wait = [],
      during_wait = [],
      before_return = []\<rparr>
     \<lparr>bus = None, dbus_address = None, state = FULL, state_requested = False,
      state_ready = True, dbus_thread = Some Waiting,
      sent = [CheckConnectivity],
      received = [\<lparr>message_type = METHOD_RETURN, body = [DInt 4]\<rparr>],
      connections = [SYSTEM], logged = [],
      handled = Suc 0, threads_started = Suc 0\<rparr> \<and>
   get_state 1
     \<lparr>before_clear = [],
      before_set = [], before_wait = [],
      during_wait = [],
      before_return = []\<rparr>
     \<lparr>bus = None, dbus_address = None, state = FULL, state_requested = False,
      state_ready = True, dbus_thread = Some Waiting,
      sent = [CheckConnectivity],
      received = [\<lparr>message_type = METHOD_RETURN, body = [DInt 4]\<rparr>],
      connections = [SYSTEM], logged = [],
      handled = Suc 0, threads_started = Suc 0\<rparr> =
   (Inr FULL,
    \<lparr>bus = None, dbus_address = None, state = FULL, state_requested = True,
      state_ready = False, dbus_thread = Some Waiting,
      sent = [CheckConnectivity],
      received = [\<lparr>message_type = METHOD_RETURN, body = [DInt 4]\<rparr>],
      connections = [SYSTEM], logged = [],
      handled = Suc 0, threads_started = Suc 0\<rparr>) \<and>
   run [Step, Step, Step, Bus_reply \<lparr>message_type = ERROR, body = []\<rparr>, Step, Step, Step]
     \<lparr>bus = None, dbus_address = None, state = FULL, state_requested = True,
      state_ready = False, dbus_thread = Some Waiting,
      sent = [CheckConnectivity],
      received = [\<lparr>message_type = METHOD_RETURN, body = [DInt 4]\<rparr>],
      connections = [SYSTEM], logged = [],
      handled = Suc 0, threads_started = Suc 0\<rparr> =
     \<lparr>bus = None, dbus_address = None, state = UNKNOWN, state_requested = False,
      state_ready = True, dbus_thread = Some Waiting,
      sent = [CheckConnectivity, CheckConnectivity],
      received = [\<lparr>message_type = METHOD_RETURN, body = [DInt 4]\<rparr>,
       \<lparr>message_type = ERROR, body = []\<rparr>],
      connections = [SYSTEM], logged = [],
      handled = Suc (Suc 0), threads_started = Suc 0\<rparr>"
proof (intro conjI)
  show "get_state 1
     \<lparr>before_clear = [],
      before_set = [], before_wait = [],
      during_wait = [(0, Step), (1 / 10, Bus_connected), (0, Step), (0, Step), (0, Step)],
      before_return = []\<rparr>
     (NetworkManager_init None None) =
   (Inr UNKNOWN,
    \<lparr>bus = None, dbus_address = None, state = UNKNOWN, state_requested = True,
      state_ready = False, dbus_thread = Some Awaiting,
      sent = [CheckConnectivity],
      received = [],
      connections = [SYSTEM], logged = [],
      handled = Suc 0, threads_started = Suc 0\<rparr>)"
    by (rule example_timed_out)
  show "wait_signalled 1
     \<lparr>before_clear = [Bus_reply \<lparr>message_type = METHOD_RETURN, body = [DInt 4]\<rparr>, Step, Step],
      before_set = [], before_wait = [],
      during_wait = [(0, Step)],
      before_return = []\<rparr>
     \<lparr>bus = None, dbus_address = None, state = UNKNOWN, state_requested = True,
      state_ready = False, dbus_thread = Some Awaiting,
      sent = [CheckConnectivity],
      received = [],
      connections = [SYSTEM], logged = [],
      handled = Suc 0, threads_started = Suc 0\<rparr>"
    by (simp add: wait_signalled_def get_state_wait_def wait_entry_def Event_wait_def
      TIMEOUT_MAX_def worker_step_def goto_def set_requested_def clear_ready_def
      ensure_thread_started_def NetworkManager_init_def target_def by_value_def members_def)
  show "get_state 1
     \<lparr>before_clear = [Bus_reply \<lparr>message_type = METHOD_RETURN, body = [DInt 4]\<rparr>, Step, Step],
      before_set = [], before_wait = [],
      during_wait = [(0, Step)],
      before_return = []\<rparr>
     \<lparr>bus = None, dbus_address = None, state = UNKNOWN, state_requested = True,
      state_ready = False, dbus_thread = Some Awaiting,
      sent = [CheckConnectivity],
      received = [],
      connections = [SYSTEM], logged = [],
      handled = Suc 0, threads_started = Suc 0\<rparr> =
   (Inr FULL,
    \<lparr>bus = None, dbus_address = None, state = FULL, state_requested = True,
      state_ready = True, dbus_thread = Some Waiting,
      sent = [CheckConnectivity],
      received = [\<lparr>message_type = METHOD_RETURN, body = [DInt 4]\<rparr>],
      connections = [SYSTEM], logged = [],
      handled = Suc 0, threads_started = Suc 0\<rparr>)"
    by (simp add: get_state_def get_state_wait_def wait_entry_def Event_wait_def TIMEOUT_MAX_def
      worker_step_def goto_def set_requested_def clear_ready_def ensure_thread_started_def
      NetworkManager_init_def target_def by_value_def members_def)
  show "run [Step, Step, Step, Bus_reply \<lparr>message_type = ERROR, body = []\<rparr>, Step, Step, Step]
     \<lparr>bus = None, dbus_address = None, state = FULL, state_requested = True,
      state_ready = True, dbus_thread = Some Waiting,
      sent = [CheckConnectivity],
      received = [\<lparr>message_type = METHOD_RETURN, body = [DInt 4]\<rparr>],
      connections = [SYSTEM], logged = [],
      handled = Suc 0, threads_started = Suc 0\<rparr> =
     \<lparr>bus = None, dbus_address = None, state = UNKNOWN, state_requested = False,
      state_ready = True, dbus_thread = Some Waiting,
      sent = [CheckConnectivity, CheckConnectivity],
      received = [\<lparr>message_type = METHOD_RETURN, body = [DInt 4]\<rparr>,
       \<lparr>message_type = ERROR, body = []\<rparr>],
      connections = [SYSTEM], logged = [],
      handled = Suc (Suc 0), threads_started = Suc 0\<rparr>"
    by (simp add: worker_step_def goto_def by_value_def members_def)
  show "\<not> wait_signalled 1
     \<lparr>before_clear = [],
      before_set = [], before_wait = [],
      during_wait = [],
      before_return = []\<rparr>
     \<lparr>bus = None, dbus_address = None, state = FULL, state_requested = False,
      state_ready = True, dbus_thread = Some Waiting,
      sent = [CheckConnectivity],
      received = [\<lparr>message_type = METHOD_RETURN, body = [DInt 4]\<rparr>],
      connections = [SYSTEM], logged = [],
      handled = Suc 0, threads_started = Suc 0\<rparr>"
    by (simp add: wait_signalled_def get_state_wait_def wait_entry_def Event_wait_def
      TIMEOUT_MAX_def worker_step_def goto_def set_requested_def clear_ready_def
      ensure_thread_started_def NetworkManager_init_def target_def by_value_def members_def)
  show "get_state 1
     \<lparr>before_clear = [],
      before_set = [], before_wait = [],
      during_wait = [],
      before_return = []\<rparr>
     \<lparr>bus = None, dbus_address = None, state = FULL, state_requested = False,
      state_ready = True, dbus_thread = Some Waiting,
      sent = [CheckConnectivity],
      received = [\<lparr>message_type = METHOD_RETURN, body = [DInt 4]\<rparr>],
      connections = [SYSTEM], logged = [],
      handled = Suc 0, threads_started = Suc 0\<rparr> =
   (Inr FULL,
    \<lparr>bus = None, dbus_address = None, state = FULL, state_requested = True,
      state_ready = False, dbus_thread = Some Waiting,
      sent = [CheckConnectivity],
      received = [\<lparr>message_type = METHOD_RETURN, body = [DInt 4]\<rparr>],
      connections = [SYSTEM], logged = [],
      handled = Suc 0, threads_started = Suc 0\<rparr>)"
    by (simp add: get_state_def get_state_wait_def wait_entry_def Event_wait_def TIMEOUT_MAX_def
      worker_step_def goto_def set_requested_def clear_ready_def ensure_thread_started_def
      NetworkManager_init_def target_def by_value_def members_def)
  show "run [Step, Step, Step, Bus_reply \<lparr>message_type = ERROR, body = []\<rparr>, Step, Step, Step]
     \<lparr>bus = None, dbus_address = None, state = FULL, state_requested = True,
      state_ready = False, dbus_thread = Some Waiting,
      sent = [CheckConnectivity],
      received = [\<lparr>message_type = METHOD_RETURN, body = [DInt 4]\<rparr>],
      connections = [SYSTEM], logged = [],
      handled = Suc 0, threads_started = Suc 0\<rparr> =
     \<lparr>bus = None, dbus_address = None, state = UNKNOWN, state_requested = False,
      state_ready = True, dbus_thread = Some Waiting,
      sent = [CheckConnectivity, CheckConnectivity],
      received = [\<lparr>message_type = METHOD_RETURN, body = [DInt 4]\<rparr>,
       \<lparr>message_type = ERROR, body = []\<rparr>],
      connections = [SYSTEM], logged = [],
      handled = Suc (Suc 0), threads_started = Suc 0\<rparr>"
    by (simp add: worker_step_def goto_def by_value_def members_def)
qed

text \<open>
  A later call on an object whose slot holds \<open>FULL\<close> from an earlier request: the
  worker takes the request and the bus answers with an error reply.
\<close>

lemma example_error:
  "get_state_wait 1
     \<lparr>before_clear = [],
      before_set = [], before_wait = [],
      during_wait = [(0, Step), (0, Step), (0, Step),
        (1 / 10, Bus_reply \<lparr>message_type = ERROR, body = []\<rparr>),
        (0, Step), (0, Step), (0, Step)],
      before_return = []\<rparr>
     \<lparr>bus = None, dbus_address = None, state = FULL, state_requested = False,
      state_ready = True, dbus_thread = Some Waiting,
      sent = [CheckConnectivity],
      received = [\<lparr>message_type = METHOD_RETURN, body = [DInt 4]\<rparr>],
      connections = [SYSTEM], logged = [],
      handled = Suc 0, threads_started = Suc 0\<rparr> =
   (Inr True, 1 / 10,
    \<lparr>bus = None, dbus_address = None, state = UNKNOWN, state_requested = False,
      state_ready = True, dbus_thread = Some Waiting,
      sent = [CheckConnectivity, CheckConnectivity],
      received = [\<lparr>message_type = METHOD_RETURN, body = [DInt 4]\<rparr>,
       \<lparr>message_type = ERROR, body = []\<rparr>],
      connections = [SYSTEM], logged = [],
      handled = Suc (Suc 0), threads_started = Suc 0\<rparr>)"
  by (simp add: get_state_wait_def wait_entry_def Event_wait_def TIMEOUT_MAX_def
      worker_step_def goto_def set_requested_def clear_ready_def ensure_thread_started_def)

text \<open>
  C3, amended. A worker that is waiting and finds "request pending" set stores
  \<open>UNKNOWN\<close> before it hands the message to \<^verbatim>\<open>bus.call\<close>, whatever the slot held. When
  the reply is of error type the slot stays \<open>UNKNOWN\<close>, then "request pending" is
  cleared, then "result ready" is set, and the worker waits again. A \<^verbatim>\<open>get_state\<close> that
  starts with no request pending or in flight, whose wait is signalled and whose reply is
  of error type returns \<open>UNKNOWN\<close>, whatever the interleaving with the worker.
\<close>

theorem error_reply_leaves_unknown:
  "(dbus_thread w = Some Waiting \<and> state_requested w \<longrightarrow>
      run [Step, Step] w =
        w\<lparr>handled := handled w + 1, state := UNKNOWN, dbus_thread := Some Calling\<rparr> \<and>
      run [Step, Step, Step] w =
        w\<lparr>handled := handled w + 1, state := UNKNOWN,
          sent := sent w @ [CheckConnectivity], dbus_thread := Some Awaiting\<rparr>) \<and>
   (dbus_thread w = Some Waiting \<and> state_requested w \<and> message_type r = ERROR \<longrightarrow>
      run [Step, Step, Step, Bus_reply r, Step, Step] w =
        w\<lparr>handled := handled w + 1, state := UNKNOWN,
          sent := sent w @ [CheckConnectivity], received := received w @ [r],
          state_requested := False, dbus_thread := Some Signalling\<rparr> \<and>
      run [Step, Step, Step, Bus_reply r, Step, Step, Step] w =
        w\<lparr>handled := handled w + 1, state := UNKNOWN,
          sent := sent w @ [CheckConnectivity], received := received w @ [r],
          state_requested := False, state_ready := True, dbus_thread := Some Waiting\<rparr>) \<and>
   (quiescent s \<and> wait_signalled timeout env s \<and>
    received (snd (get_state timeout env s)) = received s @ [r] \<and> message_type r = ERROR \<longrightarrow>
      fst (get_state timeout env s) = Inr UNKNOWN \<and>
      \<not> state_requested (snd (get_state timeout env s)) \<and>
      state_ready (snd (get_state timeout env s)))"
proof (intro conjI impI)
  assume "dbus_thread w = Some Waiting \<and> state_requested w"
  then show "run [Step, Step] w =
        w\<lparr>handled := handled w + 1, state := UNKNOWN, dbus_thread := Some Calling\<rparr>"
    and "run [Step, Step, Step] w =
        w\<lparr>handled := handled w + 1, state := UNKNOWN,
          sent := sent w @ [CheckConnectivity], dbus_thread := Some Awaiting\<rparr>"
    by (simp_all add: worker_step_def goto_def)
next
  assume "dbus_thread w = Some Waiting \<and> state_requested w \<and> message_type r = ERROR"
  then show "run [Step, Step, Step, Bus_reply r, Step, Step] w =
        w\<lparr>handled := handled w + 1, state := UNKNOWN,
          sent := sent w @ [CheckConnectivity], received := received w @ [r],
          state_requested := False, dbus_thread := Some Signalling\<rparr>"
    and "run [Step, Step, Step, Bus_reply r, Step, Step, Step] w =
        w\<lparr>handled := handled w + 1, state := UNKNOWN,
          sent := sent w @ [CheckConnectivity], received := received w @ [r],
          state_requested := False, state_ready := True, dbus_thread := Some Waiting\<rparr>"
    by (simp_all add: worker_step_def goto_def)
next
  assume a: "quiescent s \<and> wait_signalled timeout env s \<and>
    received (snd (get_state timeout env s)) = received s @ [r] \<and> message_type r = ERROR"
  then have g: "\<not> state_requested (snd (get_state timeout env s))"
    "state_ready (snd (get_state timeout env s))"
    "answered (received s) (sent s) (snd (get_state timeout env s))"
    "fst (get_state timeout env s) = Inr (state (snd (get_state timeout env s)))"
    using get_state_answered [of s timeout env] by blast+
  from g(3) a have "state (snd (get_state timeout env s)) = UNKNOWN"
    by (simp add: answered_def outcome_def)
  with g(4) show "fst (get_state timeout env s) = Inr UNKNOWN" by simp
  from g show "\<not> state_requested (snd (get_state timeout env s))"
    and "state_ready (snd (get_state timeout env s))"
    by simp_all
qed

theorem error_reply_leaves_unknown_witness:
  "dbus_thread
     \<lparr>bus = None, dbus_address = None, state = FULL, state_requested = True,
      state_ready = False, dbus_thread = Some Waiting,
      sent = [CheckConnectivity],
      received = [\<lparr>message_type = METHOD_RETURN, body = [DInt 4]\<rparr>],
      connections = [SYSTEM], logged = [],
      handled = Suc 0, threads_started = Suc 0\<rparr> = Some Waiting \<and>
   state (run [Step, Step]
     \<lparr>bus = None, dbus_address = None, state = FULL, state_requested = True,
      state_ready = False, dbus_thread = Some Waiting,
      sent = [CheckConnectivity],
      received = [\<lparr>message_type = METHOD_RETURN, body = [DInt 4]\<rparr>],
      connections = [SYSTEM], logged = [],
      handled = Suc 0, threads_started = Suc 0\<rparr>) = UNKNOWN \<and>
   sent (run [Step, Step]
     \<lparr>bus = None, dbus_address = None, state = FULL, state_requested = True,
      state_ready = False, dbus_thread = Some Waiting,
      sent = [CheckConnectivity],
      received = [\<lparr>message_type = METHOD_RETURN, body = [DInt 4]\<rparr>],
      connections = [SYSTEM], logged = [],
      handled = Suc 0, threads_started = Suc 0\<rparr>) = [CheckConnectivity] \<and>
   state (run [Step, Step, Step, Bus_reply \<lparr>message_type = ERROR, body = []\<rparr>, Step, Step, Step]
     \<lparr>bus = None, dbus_address = None, state = FULL, state_requested = True,
      state_ready = False, dbus_thread = Some Waiting,
      sent = [CheckConnectivity],
      received = [\<lparr>message_type = METHOD_RETURN, body = [DInt 4]\<rparr>],
      connections = [SYSTEM], logged = [],
      handled = Suc 0, threads_started = Suc 0\<rparr>) = UNKNOWN \<and>
   state_ready (run [Step, Step, Step, Bus_reply \<lparr>message_type = ERROR, body = []\<rparr>, Step, Step, Step]
     \<lparr>bus = None, dbus_address = None, state = FULL, state_requested = True,
      state_ready = False, dbus_thread = Some Waiting,
      sent = [CheckConnectivity],
      received = [\<lparr>message_type = METHOD_RETURN, body = [DInt 4]\<rparr>],
      connections = [SYSTEM], logged = [],
      handled = Suc 0, threads_started = Suc 0\<rparr>) \<and>
   quiescent
     \<lparr>bus = None, dbus_address = None, state = FULL, state_requested = False,
      state_ready = True, dbus_thread = Some Waiting,
      sent = [CheckConnectivity],
      received = [\<lparr>message_type = METHOD_RETURN, body = [DInt 4]\<rparr>],
      connections = [SYSTEM], logged = [],
      handled = Suc 0, threads_started = Suc 0\<rparr> \<and>
   wait_signalled 1
     \<lparr>before_clear = [],
      before_set = [], before_wait = [],
      during_wait = [(0, Step), (0, Step), (0, Step),
        (1 / 10, Bus_reply \<lparr>message_type = ERROR, body = []\<rparr>),
        (0, Step), (0, Step), (0, Step)],
      before_return = []\<rparr>
     \<lparr>bus = None, dbus_address = None, state = FULL, state_requested = False,
      state_ready = True, dbus_thread = Some Waiting,
      sent = [CheckConnectivity],
      received = [\<lparr>message_type = METHOD_RETURN, body = [DInt 4]\<rparr>],
      connections = [SYSTEM], logged = [],
      handled = Suc 0, threads_started = Suc 0\<rparr> \<and>
   fst (get_state 1
     \<lparr>before_clear = [],
      before_set = [], before_wait = [],
      during_wait = [(0, Step), (0, Step), (0, Step),
        (1 / 10, Bus_reply \<lparr>message_type = ERROR, body = []\<rparr>),
        (0, Step), (0, Step), (0, Step)],
      before_return = []\<rparr>
     \<lparr>bus = None, dbus_address = None, state = FULL, state_requested = False,
      state_ready = True, dbus_thread = Some Waiting,
      sent = [CheckConnectivity],
      received = [\<lparr>message_type = METHOD_RETURN, body = [DInt 4]\<rparr>],
      connections = [SYSTEM], logged = [],
      handled = Suc 0, threads_started = Suc 0\<rparr>) = Inr UNKNOWN"
proof -
  let ?r = "\<lparr>message_type = ERROR, body = []\<rparr>"
  let ?w = "\<lparr>bus = None, dbus_address = None, state = FULL, state_requested = True,
      state_ready = False, dbus_thread = Some Waiting,
      sent = [CheckConnectivity],
      received = [\<lparr>message_type = METHOD_RETURN, body = [DInt 4]\<rparr>],
      connections = [SYSTEM], logged = [],
      handled = Suc 0, threads_started = Suc 0\<rparr>"
  let ?s = "\<lparr>bus = None, dbus_address = None, state = FULL, state_requested = False,
      state_ready = True, dbus_thread = Some Waiting,
      sent = [CheckConnectivity],
      received = [\<lparr>message_type = METHOD_RETURN, body = [DInt 4]\<rparr>],
      connections = [SYSTEM], logged = [],
      handled = Suc 0, threads_started = Suc 0\<rparr>"
  let ?env = "\<lparr>before_clear = [],
      before_set = [], before_wait = [],
      during_wait = [(0, Step), (0, Step), (0, Step),
        (1 / 10, Bus_reply \<lparr>message_type = ERROR, body = []\<rparr>),
        (0, Step), (0, Step), (0, Step)],
      before_return = []\<rparr>"
  have w: "dbus_thread ?w = Some Waiting" "state_requested ?w" "message_type ?r = ERROR"
    by simp_all
  have q: "quiescent ?s" by (simp add: quiescent_def)
  have sg: "wait_signalled 1 ?env ?s"
    by (simp add: wait_signalled_def example_error)
  have rc: "received (snd (get_state 1 ?env ?s)) = received ?s @ [?r]"
    by (simp add: get_state_def example_error)
  note c3 = error_reply_leaves_unknown [of ?w ?r ?s 1 ?env]
  from c3 w have e2: "run [Step, Step] ?w =
        ?w\<lparr>handled := handled ?w + 1, state := UNKNOWN, dbus_thread := Some Calling\<rparr>"
    by blast
  from c3 w have e7: "run [Step, Step, Step, Bus_reply ?r, Step, Step, Step] ?w =
        ?w\<lparr>handled := handled ?w + 1, state := UNKNOWN,
          sent := sent ?w @ [CheckConnectivity], received := received ?w @ [?r],
          state_requested := False, state_ready := True, dbus_thread := Some Waiting\<rparr>"
    by blast
  from c3 q sg rc have g: "fst (get_state 1 ?env ?s) = Inr UNKNOWN"
    using w(3) by blast
  have "state (run [Step, Step] ?w) = UNKNOWN" "sent (run [Step, Step] ?w) = [CheckConnectivity]"
    by (simp_all only: e2) simp_all
  moreover have "state (run [Step, Step, Step, Bus_reply ?r, Step, Step, Step] ?w) = UNKNOWN"
    "state_ready (run [Step, Step, Step, Bus_reply ?r, Step, Step, Step] ?w)"
    by (simp_all only: e7) simp_all
  ultimately show ?thesis
    using w(1) q sg g by blast
qed




section \<open>Replies that do not decode\<close>

text \<open>A first call on a fresh object that the bus answers with the reply \<^verbatim>\<open>[5]\<close>.\<close>

lemma example_malformed_reply:
  "get_state 1
     \<lparr>before_clear = [],
      before_set = [], before_wait = [],
      during_wait = [(0, Step), (1 / 10, Bus_connected), (0, Step), (0, Step), (0, Step),
        (1 / 10, Bus_reply \<lparr>message_type = METHOD_RETURN, body = [DInt 5]\<rparr>),
        (0, Step), (0, Step), (0, Step)],
      before_return = []\<rparr>
     (NetworkManager_init None None) =
   (Inr UNKNOWN,
    \<lparr>bus = None, dbus_address = None, state = UNKNOWN, state_requested = True,
      state_ready = False, dbus_thread = None,
      sent = [CheckConnectivity],
      received = [\<lparr>message_type = METHOD_RETURN, body = [DInt 5]\<rparr>],
      connections = [SYSTEM], logged = [''error occurred while waiting for DBus reply''],
      handled = Suc 0, threads_started = Suc 0\<rparr>)"
  by (simp add: get_state_def get_state_wait_def wait_entry_def Event_wait_def TIMEOUT_MAX_def
      worker_step_def goto_def set_requested_def clear_ready_def ensure_thread_started_def
      NetworkManager_init_def target_def by_value_cases)

lemma reachable_example_no_reply:
  "reachable
     \<lparr>bus = None, dbus_address = None, state = UNKNOWN, state_requested = True,
      state_ready = False, dbus_thread = Some Awaiting,
      sent = [CheckConnectivity],
      received = [],
      connections = [SYSTEM], logged = [],
      handled = Suc 0, threads_started = Suc 0\<rparr>"
proof -
  have "reachable (snd (get_state 1
     \<lparr>before_clear = [],
      before_set = [], before_wait = [],
      during_wait = [(0, Step), (1 / 10, Bus_connected), (0, Step), (0, Step), (0, Step)],
      before_return = []\<rparr>
     (NetworkManager_init None None)))"
    by (intro reachable_get_state reachable.init)
  then show ?thesis by (simp add: example_timed_out)
qed

text \<open>
  C5, as stated, fails for a malformed reply: the success reply \<^verbatim>\<open>[5]\<close> ends the worker,
  which logs the exception and clears its handle; "request pending" stays set and "result
  ready" is not set.
\<close>

theorem malformed_reply_ends_worker:
  "dbus_thread (snd (get_state 1
     \<lparr>before_clear = [],
      before_set = [], before_wait = [],
      during_wait = [(0, Step), (1 / 10, Bus_connected), (0, Step), (0, Step), (0, Step),
        (1 / 10, Bus_reply \<lparr>message_type = METHOD_RETURN, body = [DInt 5]\<rparr>),
        (0, Step), (0, Step), (0, Step)],
      before_return = []\<rparr>
     (NetworkManager_init None None))) = None \<and>
   logged (snd (get_state 1
     \<lparr>before_clear = [],
      before_set = [], before_wait = [],
      during_wait = [(0, Step), (1 / 10, Bus_connected), (0, Step), (0, Step), (0, Step),
        (1 / 10, Bus_reply \<lparr>message_type = METHOD_RETURN, body = [DInt 5]\<rparr>),
        (0, Step), (0, Step), (0, Step)],
      before_return = []\<rparr>
     (NetworkManager_init None None))) =
     [''error occurred while waiting for DBus reply''] \<and>
   state_requested (snd (get_state 1
     \<lparr>before_clear = [],
      before_set = [], before_wait = [],
      during_wait = [(0, Step), (1 / 10, Bus_connected), (0, Step), (0, Step), (0, Step),
        (1 / 10, Bus_reply \<lparr>message_type = METHOD_RETURN, body = [DInt 5]\<rparr>),
        (0, Step), (0, Step), (0, Step)],
      before_return = []\<rparr>
     (NetworkManager_init None None))) \<and>
   \<not> state_ready (snd (get_state 1
     \<lparr>before_clear = [],
      before_set = [], before_wait = [],
      during_wait = [(0, Step), (1 / 10, Bus_connected), (0, Step), (0, Step), (0, Step),
        (1 / 10, Bus_reply \<lparr>message_type = METHOD_RETURN, body = [DInt 5]\<rparr>),
        (0, Step), (0, Step), (0, Step)],
      before_return = []\<rparr>
     (NetworkManager_init None None)))"
  by (simp only: example_malformed_reply snd_conv) simp

text \<open>
  C5, amended. For a worker awaiting its call in a reachable state, the slot holds
  \<open>UNKNOWN\<close>, "request pending" is set, and the slot keeps \<open>UNKNOWN\<close> in each of three
  cases. An error reply does not end the worker: it clears "request pending", sets "result
  ready" and waits for its next request. A reply that is not of error type and whose body
  does not decode, and a \<^verbatim>\<open>bus.call\<close> that raises, end the worker: it logs the exception
  and clears its handle; "request pending" stays set and "result ready" is as it was. A
  body does not decode when it is empty or when its first field equals none of the values
  0 to 4: an integer outside 0 to 4, a double other than 0.0, 1.0, 2.0, 3.0 and 4.0, a
  string or an array. A boolean decodes, \<^verbatim>\<open>False\<close> to \<open>UNKNOWN\<close> and \<^verbatim>\<open>True\<close> to \<open>NONE\<close>.
\<close>

theorem reply_failure_outcomes:
  "(reachable w \<and> dbus_thread w = Some Awaiting \<longrightarrow>
      state w = UNKNOWN \<and> state_requested w) \<and>
   (reachable w \<and> dbus_thread w = Some Awaiting \<and> message_type r = ERROR \<longrightarrow>
      run [Bus_reply r, Step, Step, Step] w =
        w\<lparr>received := received w @ [r], state_requested := False, state_ready := True,
          dbus_thread := Some Waiting\<rparr> \<and>
      state (run [Bus_reply r, Step, Step, Step] w) = UNKNOWN) \<and>
   (reachable w \<and> dbus_thread w = Some Awaiting \<and> message_type r \<noteq> ERROR \<and>
    decode (body r) = Inl e \<longrightarrow>
      run [Bus_reply r, Step, Step, Step] w =
        w\<lparr>received := received w @ [r],
          logged := logged w @ [''error occurred while waiting for DBus reply''],
          dbus_thread := None\<rparr> \<and>
      state (run [Bus_reply r, Step, Step, Step] w) = UNKNOWN \<and>
      state_requested (run [Bus_reply r, Step, Step, Step] w) \<and>
      state_ready (run [Bus_reply r, Step, Step, Step] w) = state_ready w) \<and>
   (reachable w \<and> dbus_thread w = Some Awaiting \<longrightarrow>
      run [Bus_raises, Step, Step] w =
        w\<lparr>logged := logged w @ [''error occurred while waiting for DBus reply''],
          dbus_thread := None\<rparr> \<and>
      state (run [Bus_raises, Step, Step] w) = UNKNOWN \<and>
      state_requested (run [Bus_raises, Step, Step] w) \<and>
      state_ready (run [Bus_raises, Step, Step] w) = state_ready w) \<and>
   decode [] = Inl IndexError \<and>
   (decode (DInt n # rest) = Inl ValueError) = (n < 0 \<or> 4 < n) \<and>
   (decode (DDouble x # rest) = Inl ValueError) = (x \<notin> {0, 1, 2, 3, 4}) \<and>
   decode (DStr t # rest) = Inl ValueError \<and>
   decode (DArray vs # rest) = Inl ValueError \<and>
   decode (DBool b # rest) = Inr (if b then NONE else UNKNOWN)"
proof (intro conjI impI)
  assume "reachable w \<and> dbus_thread w = Some Awaiting"
  then show "state w = UNKNOWN" and "state_requested w"
    by (simp_all add: awaiting_unknown)
next
  assume a: "reachable w \<and> dbus_thread w = Some Awaiting \<and> message_type r = ERROR"
  then have u: "state w = UNKNOWN" by (simp add: awaiting_unknown)
  from a show "run [Bus_reply r, Step, Step, Step] w =
        w\<lparr>received := received w @ [r], state_requested := False, state_ready := True,
          dbus_thread := Some Waiting\<rparr>"
    by (simp add: worker_step_def goto_def)
  with u show "state (run [Bus_reply r, Step, Step, Step] w) = UNKNOWN"
    by (simp del: run.simps)
next
  assume a: "reachable w \<and> dbus_thread w = Some Awaiting \<and> message_type r \<noteq> ERROR \<and>
    decode (body r) = Inl e"
  then have u: "state w = UNKNOWN" "state_requested w" by (simp_all add: awaiting_unknown)
  from a show e: "run [Bus_reply r, Step, Step, Step] w =
        w\<lparr>received := received w @ [r],
          logged := logged w @ [''error occurred while waiting for DBus reply''],
          dbus_thread := None\<rparr>"
    by (simp add: worker_step_def goto_def)
  from e u show "state (run [Bus_reply r, Step, Step, Step] w) = UNKNOWN"
    and "state_requested (run [Bus_reply r, Step, Step, Step] w)"
    and "state_ready (run [Bus_reply r, Step, Step, Step] w) = state_ready w"
    by (simp_all del: run.simps)
next
  assume a: "reachable w \<and> dbus_thread w = Some Awaiting"
  then have u: "state w = UNKNOWN" "state_requested w" by (simp_all add: awaiting_unknown)
  from a show e: "run [Bus_raises, Step, Step] w =
        w\<lparr>logged := logged w @ [''error occurred while waiting for DBus reply''],
          dbus_thread := None\<rparr>"
    by (simp add: worker_step_def goto_def)
  from e u show "state (run [Bus_raises, Step, Step] w) = UNKNOWN"
    and "state_requested (run [Bus_raises, Step, Step] w)"
    and "state_ready (run [Bus_raises, Step, Step] w) = state_ready w"
    by (simp_all del: run.simps)
next
  show "decode [] = Inl IndexError" by simp
  show "(decode (DInt n # rest) = Inl ValueError) = (n < 0 \<or> 4 < n)"
    by (auto simp: by_value_cases)
  show "(decode (DDouble x # rest) = Inl ValueError) = (x \<notin> {0, 1, 2, 3, 4})"
    by (auto simp: by_double_cases)
  show "decode (DStr t # rest) = Inl ValueError" by simp
  show "decode (DArray vs # rest) = Inl ValueError" by simp
  show "decode (DBool b # rest) = Inr (if b then NONE else UNKNOWN)"
    by (simp add: by_value_cases)
qed

theorem reply_failure_outcomes_witness:
  "reachable
     \<lparr>bus = None, dbus_address = None, state = UNKNOWN, state_requested = True,
      state_ready = False, dbus_thread = Some Awaiting,
      sent = [CheckConnectivity],
      received = [],
      connections = [SYSTEM], logged = [],
      handled = Suc 0, threads_started = Suc 0\<rparr> \<and>
   run [Bus_reply \<lparr>message_type = ERROR, body = []\<rparr>, Step, Step, Step]
     \<lparr>bus = None, dbus_address = None, state = UNKNOWN, state_requested = True,
      state_ready = False, dbus_thread = Some Awaiting,
      sent = [CheckConnectivity],
      received = [],
      connections = [SYSTEM], logged = [],
      handled = Suc 0, threads_started = Suc 0\<rparr> =
     \<lparr>bus = None, dbus_address = None, state = UNKNOWN, state_requested = False,
      state_ready = True, dbus_thread = Some Waiting,
      sent = [CheckConnectivity],
      received = [\<lparr>message_type = ERROR, body = []\<rparr>],
      connections = [SYSTEM], logged = [],
      handled = Suc 0, threads_started = Suc 0\<rparr> \<and>
   decode (body \<lparr>message_type = METHOD_RETURN, body = [DInt 5]\<rparr>) = Inl ValueError \<and>
   run [Bus_reply \<lparr>message_type = METHOD_RETURN, body = [DInt 5]\<rparr>, Step, Step, Step]
     \<lparr>bus = None, dbus_address = None, state = UNKNOWN, state_requested = True,
      state_ready = False, dbus_thread = Some Awaiting,
      sent = [CheckConnectivity],
      received = [],
      connections = [SYSTEM], logged = [],
      handled = Suc 0, threads_started = Suc 0\<rparr> =
     \<lparr>bus = None, dbus_address = None, state = UNKNOWN, state_requested = True,
      state_ready = False, dbus_thread = None,
      sent = [CheckConnectivity],
      received = [\<lparr>message_type = METHOD_RETURN, body = [DInt 5]\<rparr>],
      connections = [SYSTEM], logged = [''error occurred while waiting for DBus reply''],
      handled = Suc 0, threads_started = Suc 0\<rparr>"
proof -
  let ?err = "\<lparr>message_type = ERROR, body = []\<rparr>"
  let ?bad = "\<lparr>message_type = METHOD_RETURN, body = [DInt 5]\<rparr>"
  let ?A = "\<lparr>bus = None, dbus_address = None, state = UNKNOWN, state_requested = True,
      state_ready = False, dbus_thread = Some Awaiting,
      sent = [CheckConnectivity],
      received = [],
      connections = [SYSTEM], logged = [],
      handled = Suc 0, threads_started = Suc 0\<rparr>"
  have r: "reachable ?A" by (rule reachable_example_no_reply)
  have a: "dbus_thread ?A = Some Awaiting" "message_type ?err = ERROR"
    "message_type ?bad \<noteq> ERROR"
    by simp_all
  have "(decode (DInt 5 # []) = Inl ValueError) = ((5::int) < 0 \<or> 4 < (5::int))"
    using reply_failure_outcomes [where n = 5 and rest = "[]"] by blast
  then have b: "decode (body ?bad) = Inl ValueError" by simp
  from reply_failure_outcomes [where w = ?A and r = ?err] r a
  have "run [Bus_reply ?err, Step, Step, Step] ?A =
        ?A\<lparr>received := received ?A @ [?err], state_requested := False, state_ready := True,
          dbus_thread := Some Waiting\<rparr>"
    by blast
  then have 1: "run [Bus_reply ?err, Step, Step, Step] ?A =
     \<lparr>bus = None, dbus_address = None, state = UNKNOWN, state_requested = False,
      state_ready = True, dbus_thread = Some Waiting,
      sent = [CheckConnectivity],
      received = [\<lparr>message_type = ERROR, body = []\<rparr>],
      connections = [SYSTEM], logged = [],
      handled = Suc 0, threads_started = Suc 0\<rparr>"
    by simp
  from reply_failure_outcomes [where w = ?A and r = ?bad and e = ValueError] r a b
  have "run [Bus_reply ?bad, Step, Step, Step] ?A =
        ?A\<lparr>received := received ?A @ [?bad],
          logged := logged ?A @ [''error occurred while waiting for DBus reply''],
          dbus_thread := None\<rparr>"
    by blast
  then have 2: "run [Bus_reply ?bad, Step, Step, Step] ?A =
     \<lparr>bus = None, dbus_address = None, state = UNKNOWN, state_requested = True,
      state_ready = False, dbus_thread = None,
      sent = [CheckConnectivity],
      received = [\<lparr>message_type = METHOD_RETURN, body = [DInt 5]\<rparr>],
      connections = [SYSTEM], logged = [''error occurred while waiting for DBus reply''],
      handled = Suc 0, threads_started = Suc 0\<rparr>"
    by simp
  from r 1 b 2 show ?thesis by blast
qed

end
